theory Spec2Isabelle
  imports Complex_Main
begin

section \<open>JavaScript values shared by the modules\<close>

text \<open>
  A string is a sequence of UTF-16 code units; the model has the code units below 256,
  one per \<open>char\<close>. \<^verbatim>\<open>String.prototype.trim\<close> strips white space and line terminators
  from both ends; below 256 these are tab, line feed, vertical tab, form feed, carriage
  return, space and the no-break space U+00A0.
\<close>

definition is_space :: "char \<Rightarrow> bool" where
  "is_space c = (c = CHR 0x09 \<or> c = CHR 0x0A \<or> c = CHR 0x0B \<or> c = CHR 0x0C
     \<or> c = CHR 0x0D \<or> c = CHR '' '' \<or> c = CHR 0xA0)"

definition trim :: "string \<Rightarrow> string" where
  "trim s = rev (dropWhile is_space (rev (dropWhile is_space s)))"

text \<open>
  An exception is an \<^verbatim>\<open>Error\<close> object: its class name and its message. Every
  \<^verbatim>\<open>throw new Error(m)\<close> of the sources is \<open>Error m\<close>; the engine's own exceptions
  keep their class (\<open>TypeError\<close>, \<open>SyntaxError\<close>).
\<close>

record js_error =
  error_name :: string
  message :: string

definition Error :: "string \<Rightarrow> js_error" where
  "Error m = \<lparr>error_name = ''Error'', message = m\<rparr>"

definition TypeError :: "string \<Rightarrow> js_error" where
  "TypeError m = \<lparr>error_name = ''TypeError'', message = m\<rparr>"

definition SyntaxError :: "string \<Rightarrow> js_error" where
  "SyntaxError m = \<lparr>error_name = ''SyntaxError'', message = m\<rparr>"

text \<open>
  A value that came out of \<^verbatim>\<open>JSON.parse\<close> or out of \<^verbatim>\<open>chrome.storage\<close>.
  \<^verbatim>\<open>undefined\<close> is \<open>None\<close> of \<open>json option\<close>.
\<close>

datatype json =
    JNull
  | JBool bool
  | JNum real
  | JStr string
  | JArr "json list"
  | JObj "(string \<times> json) list"

fun truthy :: "json option \<Rightarrow> bool" where
  "truthy None = False"
| "truthy (Some JNull) = False"
| "truthy (Some (JBool b)) = b"
| "truthy (Some (JNum n)) = (n \<noteq> 0)"
| "truthy (Some (JStr s)) = (s \<noteq> [])"
| "truthy (Some (JArr xs)) = True"
| "truthy (Some (JObj kvs)) = True"

text \<open>
  \<open>get_prop v k\<close> is \<^verbatim>\<open>v[k]\<close> for a value \<open>v\<close> that is neither \<^verbatim>\<open>null\<close> nor
  \<^verbatim>\<open>undefined\<close> and a key \<open>k\<close> that is no index, not \<^verbatim>\<open>length\<close> and no member of a
  built-in prototype (every key the sources use is such a key): an object gives the
  stored value, everything else gives \<^verbatim>\<open>undefined\<close>.
\<close>

fun get_prop :: "json \<Rightarrow> string \<Rightarrow> json option" where
  "get_prop (JObj kvs) k = map_of kvs k"
| "get_prop _ k = None"

text \<open>\<open>get_index0 v\<close> is \<^verbatim>\<open>v[0]\<close> for such a value.\<close>

fun get_index0 :: "json \<Rightarrow> json option" where
  "get_index0 (JArr []) = None"
| "get_index0 (JArr (x # xs)) = Some x"
| "get_index0 (JStr []) = None"
| "get_index0 (JStr (c # cs)) = Some (JStr [c])"
| "get_index0 (JObj kvs) = map_of kvs ''0''"
| "get_index0 _ = None"

section \<open>providers.ts\<close>

datatype ProviderId = openai | anthropic | google

fun provider_id_string :: "ProviderId \<Rightarrow> string" where
  "provider_id_string openai = ''openai''"
| "provider_id_string anthropic = ''anthropic''"
| "provider_id_string google = ''google''"

text \<open>The field \<^verbatim>\<open>id\<close> of a provider configuration is \<open>provider_id\<close> here.\<close>

record ProviderConfig =
  provider_id :: ProviderId
  name :: string
  apiBaseUrl :: string
  defaultModel :: string
  models :: "string list"
  apiKeyHeader :: string

fun PROVIDERS :: "ProviderId \<Rightarrow> ProviderConfig" where
  "PROVIDERS openai = \<lparr>provider_id = openai, name = ''OpenAI'',
     apiBaseUrl = ''https://api.openai.com/v1'', defaultModel = ''gpt-4'',
     models = [''gpt-3.5-turbo'', ''gpt-4'', ''gpt-4-turbo-preview''],
     apiKeyHeader = ''Authorization''\<rparr>"
| "PROVIDERS anthropic = \<lparr>provider_id = anthropic, name = ''Anthropic (Claude)'',
     apiBaseUrl = ''https://api.anthropic.com/v1'',
     defaultModel = ''claude-3-5-sonnet-20241022'',
     models = [''claude-3-5-sonnet-20241022'', ''claude-3-5-haiku-20241022'',
       ''claude-3-opus-20240229''],
     apiKeyHeader = ''x-api-key''\<rparr>"
| "PROVIDERS google = \<lparr>provider_id = google, name = ''Google (Gemini)'',
     apiBaseUrl = ''https://generativelanguage.googleapis.com/v1'',
     defaultModel = ''gemini-1.5-flash'',
     models = [''gemini-1.5-flash'', ''gemini-1.5-pro'', ''gemini-pro''],
     apiKeyHeader = ''x-goog-api-key''\<rparr>"

definition getProvider :: "ProviderId \<Rightarrow> ProviderConfig" where
  "getProvider i = PROVIDERS i"

section \<open>providerStorage.ts\<close>

text \<open>
  \<^verbatim>\<open>chrome.storage.local\<close>: the stored items, and how a call misbehaves when it does.
  A call either throws, or runs its callback with \<^verbatim>\<open>chrome.runtime.lastError\<close> set, or
  runs its callback with the result.
\<close>

datatype fault = Throws js_error | LastError string

record 'v chrome_local =
  local_items :: "(string \<times> 'v) list"
  get_fault :: "fault option"
  set_fault :: "fault option"

definition PROVIDER_API_KEYS :: string where
  "PROVIDER_API_KEYS = ''provider_api_keys''"

definition SELECTED_PROVIDER :: string where
  "SELECTED_PROVIDER = ''selected_provider''"

text \<open>
  The wrapper \<^verbatim>\<open>storage.get\<close>: the promise rejects with
  \<^verbatim>\<open>Storage get failed: ...\<close> when the call throws and with
  \<^verbatim>\<open>Storage get error: ...\<close> when \<^verbatim>\<open>lastError\<close> is set; otherwise it resolves to the
  items stored under the requested keys.
\<close>

definition storage_get ::
  "'v chrome_local \<Rightarrow> string list \<Rightarrow> js_error + (string \<times> 'v) list" where
  "storage_get env keys =
     (case get_fault env of
        Some (Throws e) \<Rightarrow> Inl (Error (''Storage get failed: '' @ message e))
      | Some (LastError m) \<Rightarrow> Inl (Error (''Storage get error: '' @ m))
      | None \<Rightarrow> Inr (filter (\<lambda>kv. fst kv \<in> set keys) (local_items env)))"

text \<open>What \<^verbatim>\<open>console.error\<close> received: the label and the error's message.\<close>

datatype console_line = console_error string string

text \<open>
  The result of an \<^verbatim>\<open>async\<close> function is \<open>Inl\<close> when its promise rejects and \<open>Inr\<close>
  when it resolves; the second component is the console output. The inner \<open>case\<close> is
  the \<^verbatim>\<open>try\<close> block, the outer one the \<^verbatim>\<open>catch\<close> block, which prints the error and
  returns \<^verbatim>\<open>undefined\<close>.
\<close>

definition getProviderApiKey ::
  "json chrome_local \<Rightarrow> ProviderId \<Rightarrow> (js_error + json option) \<times> console_line list" where
  "getProviderApiKey env providerId =
     (case
        (case storage_get env [PROVIDER_API_KEYS] of
           Inl e \<Rightarrow> Inl e
         | Inr data \<Rightarrow>
             (let stored = map_of data PROVIDER_API_KEYS;
                  keys = (if truthy stored then the stored else JObj [])
              in Inr (get_prop keys (provider_id_string providerId))))
      of
        Inr v \<Rightarrow> (Inr v, [])
      | Inl error \<Rightarrow>
          (Inr None,
           [console_error
              (''Error getting API key for provider '' @ provider_id_string providerId @ '':'')
              (message error)]))"

definition getSelectedProvider ::
  "json chrome_local \<Rightarrow> (js_error + json option) \<times> console_line list" where
  "getSelectedProvider env =
     (case
        (case storage_get env [SELECTED_PROVIDER] of
           Inl e \<Rightarrow> Inl e
         | Inr data \<Rightarrow> Inr (map_of data SELECTED_PROVIDER))
      of
        Inr v \<Rightarrow> (Inr v, [])
      | Inl error \<Rightarrow>
          (Inr None, [console_error ''Error getting selected provider:'' (message error)]))"

section \<open>storage.ts\<close>

text \<open>
  The data model and storage module (the module \<^verbatim>\<open>./storage\<close> that \<^verbatim>\<open>background.ts\<close>
  imports): prompts, labels, and the operations on \<^verbatim>\<open>chrome.storage.local\<close>. An
  operation takes the store and returns the error its promise rejects with, or the store
  it leaves behind.
\<close>

record Prompt =
  name :: string
  content :: string
  labels :: "string list"
  originalContent :: "string option"

text \<open>The field \<^verbatim>\<open>context\<close> of a label is \<open>label_context\<close> here.\<close>

record Label =
  name :: string
  label_context :: string
  icon :: "string option"
  color :: "string option"

record StorageData =
  prompts :: "Prompt list"
  labels :: "Label list"

text \<open>
  What \<^verbatim>\<open>chrome.storage.local\<close> holds under the keys \<^verbatim>\<open>prompts\<close> and \<^verbatim>\<open>labels\<close>:
  an array, or \<open>None\<close> when the key is absent or its value is no array.
\<close>

record store_items =
  prompts_entry :: "Prompt list option"
  labels_entry :: "Label list option"

record prompt_store =
  items :: store_items
  read_fault :: "fault option"
  write_fault :: "fault option"

definition quoted :: "string \<Rightarrow> string" where
  "quoted s = CHR 0x22 # s @ [CHR 0x22]"

definition startsWith :: "string \<Rightarrow> string \<Rightarrow> bool" where
  "startsWith s p = (take (length p) s = p)"

fun findIndex :: "('a \<Rightarrow> bool) \<Rightarrow> 'a list \<Rightarrow> nat option" where
  "findIndex P [] = None"
| "findIndex P (x # xs) = (if P x then Some 0 else map_option Suc (findIndex P xs))"

definition prompt_storage_get :: "prompt_store \<Rightarrow> js_error + store_items" where
  "prompt_storage_get env =
     (case read_fault env of
        Some (Throws e) \<Rightarrow> Inl (Error (''Storage get failed: '' @ message e))
      | Some (LastError m) \<Rightarrow> Inl (Error (''Storage get error: '' @ m))
      | None \<Rightarrow> Inr (items env))"

definition prompt_storage_set :: "prompt_store \<Rightarrow> store_items \<Rightarrow> js_error + prompt_store" where
  "prompt_storage_set env new_items =
     (case write_fault env of
        Some (Throws e) \<Rightarrow> Inl (Error (''Storage set failed: '' @ message e))
      | Some (LastError m) \<Rightarrow> Inl (Error (''Storage set error: '' @ m))
      | None \<Rightarrow> Inr (env\<lparr>items := new_items\<rparr>))"

definition getStorageData :: "prompt_store \<Rightarrow> js_error + StorageData" where
  "getStorageData env =
     (case prompt_storage_get env of
        Inl e \<Rightarrow> Inl e
      | Inr data \<Rightarrow>
          Inr \<lparr>prompts = (case prompts_entry data of Some ps \<Rightarrow> ps | None \<Rightarrow> []),
               labels = (case labels_entry data of Some ls \<Rightarrow> ls | None \<Rightarrow> [])\<rparr>)"

definition saveStorageData :: "prompt_store \<Rightarrow> StorageData \<Rightarrow> js_error + prompt_store" where
  "saveStorageData env data =
     prompt_storage_set env
       \<lparr>prompts_entry = Some (prompts data), labels_entry = Some (StorageData.labels data)\<rparr>"

definition getAllPrompts :: "prompt_store \<Rightarrow> js_error + Prompt list" where
  "getAllPrompts env =
     (case getStorageData env of
        Inr data \<Rightarrow> Inr (prompts data)
      | Inl error \<Rightarrow> Inl (Error (''Failed to get all prompts: '' @ message error)))"

definition getPrompt :: "prompt_store \<Rightarrow> string \<Rightarrow> js_error + Prompt option" where
  "getPrompt env n =
     (case getAllPrompts env of
        Inr ps \<Rightarrow> Inr (find (\<lambda>p. Prompt.name p = n) ps)
      | Inl error \<Rightarrow>
          Inl (Error (''Failed to get prompt '' @ quoted n @ '': '' @ message error)))"

definition savePrompt :: "prompt_store \<Rightarrow> Prompt \<Rightarrow> js_error + prompt_store" where
  "savePrompt env prompt =
     (if Prompt.name prompt = [] \<or> trim (Prompt.name prompt) = []
      then Inl (Error ''Prompt name cannot be empty'')
      else
        (case
           (case getStorageData env of
              Inl e \<Rightarrow> Inl e
            | Inr data \<Rightarrow>
                saveStorageData env
                  (case findIndex (\<lambda>p. Prompt.name p = Prompt.name prompt) (prompts data) of
                     Some existingIndex \<Rightarrow>
                       data\<lparr>prompts := (prompts data)[existingIndex := prompt]\<rparr>
                   | None \<Rightarrow> data\<lparr>prompts := prompts data @ [prompt]\<rparr>))
         of
           Inr env' \<Rightarrow> Inr env'
         | Inl error \<Rightarrow>
             Inl (Error (''Failed to save prompt '' @ quoted (Prompt.name prompt) @ '': ''
                    @ message error))))"

definition getAllLabels :: "prompt_store \<Rightarrow> js_error + Label list" where
  "getAllLabels env =
     (case getStorageData env of
        Inr data \<Rightarrow> Inr (StorageData.labels data)
      | Inl error \<Rightarrow> Inl (Error (''Failed to get all labels: '' @ message error)))"

text \<open>The body of the \<^verbatim>\<open>try\<close> block of \<^verbatim>\<open>saveLabel\<close>.\<close>

definition saveLabel_body ::
  "prompt_store \<Rightarrow> Label \<Rightarrow> string option \<Rightarrow> js_error + prompt_store" where
  "saveLabel_body env label oldName =
     (case getStorageData env of
        Inl e \<Rightarrow> Inl e
      | Inr data \<Rightarrow>
          (let isRename = (oldName \<noteq> None \<and> oldName \<noteq> Some (Label.name label)) in
           if isRename then
             (let old = the oldName in
              case findIndex (\<lambda>l. Label.name l = old) (StorageData.labels data) of
                None \<Rightarrow>
                  Inl (Error (''Cannot rename label '' @ quoted old @ '': label not found''))
              | Some oldLabelIndex \<Rightarrow>
                  (case find (\<lambda>l. Label.name l = Label.name label \<and> Label.name l \<noteq> old)
                          (StorageData.labels data) of
                     Some conflictingLabel \<Rightarrow>
                       Inl (Error (''Cannot rename label '' @ quoted old @ '' to ''
                              @ quoted (Label.name label)
                              @ '': a label with that name already exists''))
                   | None \<Rightarrow>
                       saveStorageData env
                         \<lparr>prompts =
                            map (\<lambda>prompt. prompt\<lparr>Prompt.labels :=
                                   map (\<lambda>labelName.
                                          if labelName = old then Label.name label
                                          else labelName)
                                     (Prompt.labels prompt)\<rparr>)
                              (prompts data),
                          labels = (StorageData.labels data)[oldLabelIndex := label]\<rparr>))
           else
             (case findIndex (\<lambda>l. Label.name l = Label.name label) (StorageData.labels data) of
                Some existingIndex \<Rightarrow>
                  saveStorageData env
                    (data\<lparr>StorageData.labels :=
                       (StorageData.labels data)[existingIndex := label]\<rparr>)
              | None \<Rightarrow>
                  (case find (\<lambda>l. Label.name l = Label.name label) (StorageData.labels data) of
                     Some duplicate \<Rightarrow>
                       Inl (Error (''Label with name '' @ quoted (Label.name label)
                              @ '' already exists''))
                   | None \<Rightarrow>
                       saveStorageData env
                         (data\<lparr>StorageData.labels := StorageData.labels data @ [label]\<rparr>)))))"

definition saveLabel ::
  "prompt_store \<Rightarrow> Label \<Rightarrow> string option \<Rightarrow> js_error + prompt_store" where
  "saveLabel env label oldName =
     (if Label.name label = [] \<or> trim (Label.name label) = []
      then Inl (Error ''Label name cannot be empty'')
      else
        (case saveLabel_body env label oldName of
           Inr env' \<Rightarrow> Inr env'
         | Inl error \<Rightarrow>
             if startsWith (message error) ''Cannot rename''
                \<or> startsWith (message error) ''Label with name''
             then Inl error
             else Inl (Error (''Failed to save label '' @ quoted (Label.name label) @ '': ''
                         @ message error))))"

definition deleteLabel :: "prompt_store \<Rightarrow> string \<Rightarrow> js_error + prompt_store" where
  "deleteLabel env n =
     (case
        (case getStorageData env of
           Inl e \<Rightarrow> Inl e
         | Inr data \<Rightarrow>
             (let initialLabelLength = length (StorageData.labels data);
                  new_labels = filter (\<lambda>l. Label.name l \<noteq> n) (StorageData.labels data);
                  promptsChanged = (\<exists>prompt \<in> set (prompts data). n \<in> set (Prompt.labels prompt));
                  new_prompts =
                    map (\<lambda>prompt.
                           if n \<in> set (Prompt.labels prompt)
                           then prompt\<lparr>Prompt.labels :=
                                  filter (\<lambda>labelName. labelName \<noteq> n) (Prompt.labels prompt)\<rparr>
                           else prompt)
                      (prompts data)
              in if length new_labels < initialLabelLength \<or> promptsChanged
                 then saveStorageData env \<lparr>prompts = new_prompts, labels = new_labels\<rparr>
                 else Inr env))
      of
        Inr env' \<Rightarrow> Inr env'
      | Inl error \<Rightarrow>
          Inl (Error (''Failed to delete label '' @ quoted n @ '': '' @ message error)))"

section \<open>PromptEditor.tsx\<close>

text \<open>
  The editor's React state. \<open>originalContentBeforeRefinement\<close> is a string or
  \<^verbatim>\<open>undefined\<close>; it is falsy when it is \<^verbatim>\<open>undefined\<close> or the empty string.
\<close>

record PromptEditor =
  name :: string
  content :: string
  selectedLabel :: "string option"
  showClarification :: bool
  showToast :: bool
  toastMessage :: string
  originalContentBeforeRefinement :: "string option"

fun truthy_string :: "string option \<Rightarrow> bool" where
  "truthy_string None = False"
| "truthy_string (Some s) = (s \<noteq> [])"

text \<open>
  The initial state, from the \<^verbatim>\<open>prompt\<close> prop (the \<^verbatim>\<open>useState\<close> initialisers). The
  effect that copies the prop into the state again runs when the prop changes, which it
  does not while one prompt is open in the editor.
\<close>

definition PromptEditor_init :: "Prompt \<Rightarrow> PromptEditor" where
  "PromptEditor_init prompt =
     \<lparr>PromptEditor.name = Prompt.name prompt,
      content = Prompt.content prompt,
      selectedLabel = (case Prompt.labels prompt of [] \<Rightarrow> None | l # ls \<Rightarrow> Some l),
      showClarification = False,
      showToast = False,
      toastMessage = [],
      originalContentBeforeRefinement = originalContent prompt\<rparr>"

text \<open>
  The \<^verbatim>\<open>onComplete\<close> callback the editor hands to the clarification chat is a closure
  of the render that created it: it reads \<^verbatim>\<open>content\<close> and
  \<^verbatim>\<open>originalContentBeforeRefinement\<close> as they were in that render, and its setters write
  the state of the editor as it is when the callback runs. While a chat is on screen
  nothing else changes the two values, so the closure a chat holds is the one made when
  Refine opened it.
\<close>

record chat_closure =
  closure_content :: string
  closure_original :: "string option"

definition onComplete :: "chat_closure \<Rightarrow> string \<Rightarrow> PromptEditor \<Rightarrow> PromptEditor" where
  "onComplete cl refined st =
     (let wasRefined = (trim refined \<noteq> trim (closure_content cl));
          st1 = (if wasRefined \<and> \<not> truthy_string (closure_original cl)
                 then st\<lparr>originalContentBeforeRefinement := Some (closure_content cl)\<rparr>
                 else st);
          st2 = st1\<lparr>PromptEditor.content := refined, showClarification := False\<rparr>
      in if wasRefined
         then st2\<lparr>toastMessage := ''Prompt refined successfully'', showToast := True\<rparr>
         else st2)"

text \<open>
  The prompt the Save button hands to \<^verbatim>\<open>onSave\<close>. An empty string is falsy: an empty
  selected label gives no label, an empty archived content gives no \<open>originalContent\<close>.
\<close>

definition savedPrompt :: "PromptEditor \<Rightarrow> Prompt" where
  "savedPrompt st =
     \<lparr>Prompt.name = PromptEditor.name st,
      content = PromptEditor.content st,
      labels = (if truthy_string (selectedLabel st) then [the (selectedLabel st)] else []),
      originalContent =
        (if truthy_string (originalContentBeforeRefinement st)
         then originalContentBeforeRefinement st else None)\<rparr>"

text \<open>
  One editing session: the editor, the closures of the chats opened so far (in the
  order of opening), and the chats whose \<^verbatim>\<open>onComplete\<close> has run. The form (name,
  content, label, Refine) is on screen while \<open>showClarification\<close> is false, the chat
  while it is true; the Refine button is disabled while the trimmed content is empty.
  The chat calls \<^verbatim>\<open>onComplete\<close> when the response to its
  \<^verbatim>\<open>generateFinalRefinedPrompt\<close> message arrives, with no check that it is still on
  screen: the back arrow (\<open>chatCancel\<close>) hides the chat and leaves a request that is
  under way to complete later, so \<open>chatComplete k\<close> may come for any chat that was
  opened and has not completed, at most once for each.
\<close>

record editing =
  editor :: PromptEditor
  chats :: "chat_closure list"
  finished :: "nat list"

definition editing_init :: "Prompt \<Rightarrow> editing" where
  "editing_init prompt = \<lparr>editor = PromptEditor_init prompt, chats = [], finished = []\<rparr>"

datatype editor_event =
    setName string
  | setContent string
  | clickLabel string
  | handleRefine
  | chatComplete nat string
  | chatCancel
  | closeToast

fun editor_step :: "editing \<Rightarrow> editor_event \<Rightarrow> editing" where
  "editor_step s (setName n) =
     (if showClarification (editor s) then s
      else s\<lparr>editor := (editor s)\<lparr>PromptEditor.name := n\<rparr>\<rparr>)"
| "editor_step s (setContent c) =
     (if showClarification (editor s) then s
      else s\<lparr>editor := (editor s)\<lparr>PromptEditor.content := c\<rparr>\<rparr>)"
| "editor_step s (clickLabel l) =
     (if showClarification (editor s) then s
      else if selectedLabel (editor s) = Some l
      then s\<lparr>editor := (editor s)\<lparr>selectedLabel := None\<rparr>\<rparr>
      else s\<lparr>editor := (editor s)\<lparr>selectedLabel := Some l\<rparr>\<rparr>)"
| "editor_step s handleRefine =
     (if showClarification (editor s) \<or> trim (PromptEditor.content (editor s)) = [] then s
      else s\<lparr>editor := (editor s)\<lparr>showClarification := True\<rparr>,
             chats := chats s @
               [\<lparr>closure_content = PromptEditor.content (editor s),
                 closure_original = originalContentBeforeRefinement (editor s)\<rparr>]\<rparr>)"
| "editor_step s (chatComplete k refined) =
     (if k < length (chats s) \<and> k \<notin> set (finished s)
      then s\<lparr>editor := onComplete (chats s ! k) refined (editor s),
             finished := k # finished s\<rparr>
      else s)"
| "editor_step s chatCancel = s\<lparr>editor := (editor s)\<lparr>showClarification := False\<rparr>\<rparr>"
| "editor_step s closeToast = s\<lparr>editor := (editor s)\<lparr>showToast := False\<rparr>\<rparr>"

definition editor_run :: "editing \<Rightarrow> editor_event list \<Rightarrow> editing" where
  "editor_run s evs = foldl editor_step s evs"

section \<open>The provider API adapter (chatCompletion)\<close>

datatype Role = system | user | assistant

fun role_string :: "Role \<Rightarrow> string" where
  "role_string system = ''system''"
| "role_string user = ''user''"
| "role_string assistant = ''assistant''"

record ChatMessage =
  role :: Role
  content :: string

record ChatCompletionRequest =
  model :: string
  messages :: "ChatMessage list"
  temperature :: "real option"
  maxTokens :: "nat option"

record ChatCompletionResponse =
  content :: string

text \<open>
  What \<^verbatim>\<open>fetch\<close> is called with. The body is the object handed to
  \<^verbatim>\<open>JSON.stringify\<close>, kept as a tree.
\<close>

record http_request =
  url :: string
  http_method :: string
  headers :: "(string \<times> string) list"
  body :: json

text \<open>
  What \<^verbatim>\<open>fetch\<close> resolves to. \<open>text_body\<close> is what \<^verbatim>\<open>response.text()\<close> resolves to
  (\<open>None\<close> when it rejects); \<open>json_body\<close> is the outcome of \<^verbatim>\<open>response.json()\<close>,
  which rejects when the body is not JSON.
\<close>

record http_response =
  ok :: bool
  status :: nat
  statusText :: string
  text_body :: "string option"
  json_body :: "js_error + json"

type_synonym fetch = "http_request \<Rightarrow> js_error + http_response"

definition digit_char :: "nat \<Rightarrow> char" where
  "digit_char d = ''0123456789'' ! d"

fun string_of_nat :: "nat \<Rightarrow> string" where
  "string_of_nat n =
     (if n < 10 then [digit_char n] else string_of_nat (n div 10) @ [digit_char (n mod 10)])"

definition squoted :: "string \<Rightarrow> string" where
  "squoted s = CHR 0x27 # s @ [CHR 0x27]"

text \<open>
  \<open>opt_chain v f\<close> is one step \<^verbatim>\<open>v?.f\<close> of an optional chain: \<^verbatim>\<open>undefined\<close> when
  \<open>v\<close> is \<^verbatim>\<open>null\<close> or \<^verbatim>\<open>undefined\<close>.
\<close>

definition opt_chain :: "json option \<Rightarrow> (json \<Rightarrow> json option) \<Rightarrow> json option" where
  "opt_chain v f = (case v of None \<Rightarrow> None | Some JNull \<Rightarrow> None | Some x \<Rightarrow> f x)"

text \<open>
  \<open>read_prop data k\<close> is the unguarded \<^verbatim>\<open>data.k\<close> on the parsed body: a
  \<^verbatim>\<open>TypeError\<close> when the body is \<^verbatim>\<open>null\<close> (the message as V8 words it).
\<close>

definition read_prop :: "json \<Rightarrow> string \<Rightarrow> js_error + json option" where
  "read_prop data k =
     (if data = JNull
      then Inl (TypeError (''Cannot read properties of null (reading '' @ squoted k @ '')''))
      else Inr (get_prop data k))"

text \<open>
  \<open>call_trim e v\<close> is the last step \<^verbatim>\<open>v?.trim()\<close>: \<^verbatim>\<open>undefined\<close> on \<^verbatim>\<open>null\<close> and
  \<^verbatim>\<open>undefined\<close>, the trimmed string on a string, and a \<^verbatim>\<open>TypeError\<close> on any other
  value, which has no \<^verbatim>\<open>trim\<close> function (\<open>e\<close> is the expression V8 prints).
\<close>

definition call_trim :: "string \<Rightarrow> json option \<Rightarrow> js_error + string option" where
  "call_trim e v =
     (case v of
        None \<Rightarrow> Inr None
      | Some JNull \<Rightarrow> Inr None
      | Some (JStr s) \<Rightarrow> Inr (Some (trim s))
      | Some _ \<Rightarrow> Inl (TypeError (e @ '' is not a function'')))"

definition message_json :: "ChatMessage \<Rightarrow> json" where
  "message_json m =
     JObj [(''role'', JStr (role_string (role m))), (''content'', JStr (ChatMessage.content m))]"

subsection \<open>OpenAI\<close>

definition openAI_request ::
  "string \<Rightarrow> string \<Rightarrow> string \<Rightarrow> ChatMessage list \<Rightarrow> real \<Rightarrow> http_request" where
  "openAI_request apiKey baseUrl mdl msgs temp =
     \<lparr>url = baseUrl @ ''/chat/completions'',
      http_method = ''POST'',
      headers = [(''Content-Type'', ''application/json''),
                 (''Authorization'', ''Bearer '' @ apiKey)],
      body = JObj [(''model'', JStr mdl), (''messages'', JArr (map message_json msgs)),
                   (''temperature'', JNum temp)]\<rparr>"

text \<open>\<^verbatim>\<open>data.choices?.[0]?.message?.content?.trim()\<close>\<close>

definition openAI_content :: "json \<Rightarrow> js_error + string option" where
  "openAI_content data =
     (case read_prop data ''choices'' of
        Inl e \<Rightarrow> Inl e
      | Inr choices \<Rightarrow>
          call_trim ''data.choices?.[0]?.message?.content?.trim''
            (opt_chain (opt_chain (opt_chain choices get_index0)
               (\<lambda>v. get_prop v ''message'')) (\<lambda>v. get_prop v ''content'')))"

definition errText :: "http_response \<Rightarrow> string" where
  "errText response =
     (case text_body response of Some t \<Rightarrow> t | None \<Rightarrow> statusText response)"

definition openAIChatCompletion ::
  "fetch \<Rightarrow> string \<Rightarrow> string \<Rightarrow> string \<Rightarrow> ChatMessage list \<Rightarrow> real
     \<Rightarrow> js_error + ChatCompletionResponse" where
  "openAIChatCompletion fetch apiKey baseUrl mdl msgs temp =
     (case fetch (openAI_request apiKey baseUrl mdl msgs temp) of
        Inl e \<Rightarrow> Inl e
      | Inr response \<Rightarrow>
          if \<not> ok response
          then Inl (Error (''OpenAI API error ('' @ string_of_nat (status response) @ ''): ''
                      @ errText response))
          else
            (case json_body response of
               Inl e \<Rightarrow> Inl e
             | Inr data \<Rightarrow>
                 (case openAI_content data of
                    Inl e \<Rightarrow> Inl e
                  | Inr c \<Rightarrow>
                      if \<not> truthy_string c
                      then Inl (Error ''OpenAI API returned no content'')
                      else Inr \<lparr>content = the c\<rparr>)))"

subsection \<open>Anthropic\<close>

definition anthropic_request ::
  "string \<Rightarrow> string \<Rightarrow> string \<Rightarrow> ChatMessage list \<Rightarrow> real \<Rightarrow> http_request" where
  "anthropic_request apiKey baseUrl mdl msgs temp =
     (let systemMessage = find (\<lambda>m. role m = system) msgs;
          conversationMessages = filter (\<lambda>m. role m \<noteq> system) msgs
      in \<lparr>url = baseUrl @ ''/messages'',
          http_method = ''POST'',
          headers = [(''Content-Type'', ''application/json''),
                     (''x-api-key'', apiKey),
                     (''anthropic-version'', ''2023-06-01'')],
          body = JObj
            ([(''model'', JStr mdl),
              (''max_tokens'', JNum 4096),
              (''temperature'', JNum temp),
              (''messages'', JArr (map (\<lambda>m. JObj
                 [(''role'', JStr (if role m = assistant then ''assistant'' else ''user'')),
                  (''content'', JStr (ChatMessage.content m))]) conversationMessages))]
             @ (case systemMessage of
                  Some sm \<Rightarrow> [(''system'', JStr (ChatMessage.content sm))]
                | None \<Rightarrow> []))\<rparr>)"

text \<open>\<^verbatim>\<open>data.content?.[0]?.text?.trim()\<close>\<close>

definition anthropic_content :: "json \<Rightarrow> js_error + string option" where
  "anthropic_content data =
     (case read_prop data ''content'' of
        Inl e \<Rightarrow> Inl e
      | Inr c \<Rightarrow>
          call_trim ''data.content?.[0]?.text?.trim''
            (opt_chain (opt_chain c get_index0) (\<lambda>v. get_prop v ''text'')))"

definition anthropicChatCompletion ::
  "fetch \<Rightarrow> string \<Rightarrow> string \<Rightarrow> string \<Rightarrow> ChatMessage list \<Rightarrow> real
     \<Rightarrow> js_error + ChatCompletionResponse" where
  "anthropicChatCompletion fetch apiKey baseUrl mdl msgs temp =
     (case fetch (anthropic_request apiKey baseUrl mdl msgs temp) of
        Inl e \<Rightarrow> Inl e
      | Inr response \<Rightarrow>
          if \<not> ok response
          then Inl (Error (''Anthropic API error ('' @ string_of_nat (status response) @ ''): ''
                      @ errText response))
          else
            (case json_body response of
               Inl e \<Rightarrow> Inl e
             | Inr data \<Rightarrow>
                 (case anthropic_content data of
                    Inl e \<Rightarrow> Inl e
                  | Inr c \<Rightarrow>
                      if \<not> truthy_string c
                      then Inl (Error ''Anthropic API returned no content'')
                      else Inr \<lparr>content = the c\<rparr>)))"

subsection \<open>Google Gemini\<close>

definition google_request ::
  "string \<Rightarrow> string \<Rightarrow> string \<Rightarrow> ChatMessage list \<Rightarrow> real \<Rightarrow> http_request" where
  "google_request apiKey baseUrl mdl msgs temp =
     (let systemInstruction = find (\<lambda>m. role m = system) msgs;
          conversationMessages = filter (\<lambda>m. role m \<noteq> system) msgs;
          contents = map (\<lambda>m. JObj
            [(''role'', JStr (if role m = assistant then ''model'' else ''user'')),
             (''parts'', JArr [JObj [(''text'', JStr (ChatMessage.content m))]])])
            conversationMessages
      in \<lparr>url = baseUrl @ ''/'' @ mdl @ '':generateContent?key='' @ apiKey,
          http_method = ''POST'',
          headers = [(''Content-Type'', ''application/json'')],
          body = JObj
            ([(''contents'', JArr contents),
              (''generationConfig'', JObj [(''temperature'', JNum temp)])]
             @ (case systemInstruction of
                  Some si \<Rightarrow>
                    [(''systemInstruction'',
                      JObj [(''parts'', JArr [JObj [(''text'', JStr (ChatMessage.content si))]])])]
                | None \<Rightarrow> []))\<rparr>)"

text \<open>\<^verbatim>\<open>data.candidates?.[0]?.content?.parts?.[0]?.text?.trim()\<close>\<close>

definition google_content :: "json \<Rightarrow> js_error + string option" where
  "google_content data =
     (case read_prop data ''candidates'' of
        Inl e \<Rightarrow> Inl e
      | Inr candidates \<Rightarrow>
          call_trim ''data.candidates?.[0]?.content?.parts?.[0]?.text?.trim''
            (opt_chain (opt_chain (opt_chain (opt_chain (opt_chain candidates get_index0)
               (\<lambda>v. get_prop v ''content'')) (\<lambda>v. get_prop v ''parts'')) get_index0)
               (\<lambda>v. get_prop v ''text'')))"

definition googleChatCompletion ::
  "fetch \<Rightarrow> string \<Rightarrow> string \<Rightarrow> string \<Rightarrow> ChatMessage list \<Rightarrow> real
     \<Rightarrow> js_error + ChatCompletionResponse" where
  "googleChatCompletion fetch apiKey baseUrl mdl msgs temp =
     (case fetch (google_request apiKey baseUrl mdl msgs temp) of
        Inl e \<Rightarrow> Inl e
      | Inr response \<Rightarrow>
          if \<not> ok response
          then Inl (Error (''Google API error ('' @ string_of_nat (status response) @ ''): ''
                      @ errText response))
          else
            (case json_body response of
               Inl e \<Rightarrow> Inl e
             | Inr data \<Rightarrow>
                 (case google_content data of
                    Inl e \<Rightarrow> Inl e
                  | Inr c \<Rightarrow>
                      if \<not> truthy_string c
                      then Inl (Error ''Google API returned no content'')
                      else Inr \<lparr>content = the c\<rparr>)))"

subsection \<open>chatCompletion\<close>

text \<open>What the three \<^verbatim>\<open>console\<close> calls of \<^verbatim>\<open>chatCompletion\<close> print.\<close>

datatype llm_log =
    LLM_REQUEST ProviderId string real "ChatMessage list"
  | LLM_RESPONSE ProviderId string string
  | LLM_ERROR ProviderId string real "ChatMessage list" string

text \<open>
  The provider id has type \<^verbatim>\<open>ProviderId\<close>, so the fourth arm of the dispatch
  (\<^verbatim>\<open>Unsupported provider\<close>) is never taken. The result is the promise's outcome and
  the console output in order.
\<close>

definition chatCompletion ::
  "fetch \<Rightarrow> ProviderConfig \<Rightarrow> string \<Rightarrow> ChatCompletionRequest
     \<Rightarrow> (js_error + ChatCompletionResponse) \<times> llm_log list" where
  "chatCompletion fetch provider apiKey request =
     (let i = provider_id provider;
          baseUrl = apiBaseUrl provider;
          mdl = model request;
          msgs = messages request;
          temp = (case temperature request of Some t \<Rightarrow> t | None \<Rightarrow> 0.7);
          request_log = LLM_REQUEST i mdl temp msgs
      in case (case i of
                 openai \<Rightarrow> openAIChatCompletion fetch apiKey baseUrl mdl msgs temp
               | anthropic \<Rightarrow> anthropicChatCompletion fetch apiKey baseUrl mdl msgs temp
               | google \<Rightarrow> googleChatCompletion fetch apiKey baseUrl mdl msgs temp) of
           Inr response \<Rightarrow>
             (Inr response,
              [request_log,
               LLM_RESPONSE i mdl (take 500 (ChatCompletionResponse.content response))])
         | Inl err \<Rightarrow>
             (Inl err, [request_log, LLM_ERROR i mdl temp msgs (message err)]))"

text \<open>
  The one request an invocation passes to \<^verbatim>\<open>fetch\<close>: the request of the arm that the
  provider id selects, built from the provider's base URL, the key, and the model, the
  messages and the temperature (0.7 by default) of the unified request.
\<close>

definition sent_request ::
  "ProviderConfig \<Rightarrow> string \<Rightarrow> ChatCompletionRequest \<Rightarrow> http_request" where
  "sent_request provider apiKey request =
     (let baseUrl = apiBaseUrl provider;
          mdl = model request;
          msgs = messages request;
          temp = (case temperature request of Some t \<Rightarrow> t | None \<Rightarrow> 0.7)
      in case provider_id provider of
           openai \<Rightarrow> openAI_request apiKey baseUrl mdl msgs temp
         | anthropic \<Rightarrow> anthropic_request apiKey baseUrl mdl msgs temp
         | google \<Rightarrow> google_request apiKey baseUrl mdl msgs temp)"

section \<open>background.ts: the clarification handler\<close>

text \<open>The fields of the response object that the refinement actions use.\<close>

record Response =
  success :: bool
  error :: "string option"
  refinedText :: "string option"
  needsClarification :: "bool option"
  questions :: "string list option"
  missing :: "string list option"
  importanceScore :: "int option"

definition failure :: "string \<Rightarrow> Response" where
  "failure m =
     \<lparr>success = False, error = Some m, refinedText = None, needsClarification = None,
      questions = None, missing = None, importanceScore = None\<rparr>"

record ClarificationResult =
  questions :: "string list"
  missing :: "string list"
  importanceScore :: int

record GenerateClarifyingQuestionsMessage =
  promptContent :: "string option"
  labelContext :: "string option"
  label :: "string option"

fun provider_of_json :: "json option \<Rightarrow> ProviderId option" where
  "provider_of_json (Some (JStr s)) =
     (if s = ''openai'' then Some openai
      else if s = ''anthropic'' then Some anthropic
      else if s = ''google'' then Some google
      else None)"
| "provider_of_json _ = None"

definition InvalidInputError :: js_error where
  "InvalidInputError = \<lparr>error_name = ''InvalidInputError'', message = ''Prompt text is empty''\<rparr>"

definition NoProviderConfiguredError :: js_error where
  "NoProviderConfiguredError =
     \<lparr>error_name = ''NoProviderConfiguredError'', message = ''No provider configured''\<rparr>"

definition RefinementProviderError :: "js_error \<Rightarrow> js_error" where
  "RefinementProviderError cause =
     \<lparr>error_name = ''RefinementProviderError'', message = message cause\<rparr>"

text \<open>
  Modelled from the spec: \<^verbatim>\<open>generateClarifyingQuestions\<close> of the module
  \<^verbatim>\<open>refinePrompt\<close>, which \<^verbatim>\<open>background.ts\<close> imports and which is not among the
  sources. Operation A of the spec: (1) an empty prompt text fails with
  \<^verbatim>\<open>InvalidInputError\<close>; (2) no selected provider, or no key for it, fails with
  \<^verbatim>\<open>NoProviderConfiguredError\<close>; (3) one request goes to the chat client; (4) the model's
  structured output is parsed into importance score, missing items and questions, and the
  questions are truncated to the first three, in order; (5) the importance score gates
  nothing; (6) a failure of the chat client is rethrown as \<^verbatim>\<open>RefinementProviderError\<close>.
  \<open>proposal\<close> is the outcome of the one request, parsed: what the model proposed, or the
  chat client's error. The error messages are placeholders: the spec names the error
  kinds only.
\<close>

definition generateClarifyingQuestions ::
  "json chrome_local \<Rightarrow> (js_error + ClarificationResult) \<Rightarrow> string \<Rightarrow> string \<Rightarrow> string
     \<Rightarrow> ProviderId option \<Rightarrow> js_error + ClarificationResult" where
  "generateClarifyingQuestions env proposal promptText contextText labelHint providerId =
     (if promptText = [] then Inl InvalidInputError
      else
        (case providerId of
           None \<Rightarrow> Inl NoProviderConfiguredError
         | Some p \<Rightarrow>
             (case fst (getProviderApiKey env p) of
                Inr (Some (JStr apiKey)) \<Rightarrow>
                  (case proposal of
                     Inl e \<Rightarrow> Inl (RefinementProviderError e)
                   | Inr r \<Rightarrow>
                       Inr (r\<lparr>ClarificationResult.questions :=
                              take 3 (ClarificationResult.questions r)\<rparr>))
              | _ \<Rightarrow> Inl NoProviderConfiguredError)))"

text \<open>\<^verbatim>\<open>handleGenerateClarifyingQuestions\<close>, from \<^verbatim>\<open>background.ts\<close>.\<close>

definition handleGenerateClarifyingQuestions ::
  "json chrome_local \<Rightarrow> (js_error + ClarificationResult)
     \<Rightarrow> GenerateClarifyingQuestionsMessage \<Rightarrow> Response" where
  "handleGenerateClarifyingQuestions env proposal msg =
     (if \<not> truthy_string (promptContent msg) \<or> trim (the (promptContent msg)) = []
      then failure ''Prompt content is required''
      else
        (let labelContext' = (if truthy_string (labelContext msg) then the (labelContext msg)
                              else []);
             label' = (if truthy_string (label msg) then the (label msg) else []);
             providerId = (case fst (getSelectedProvider env) of
                             Inr v \<Rightarrow> provider_of_json v | Inl e \<Rightarrow> None)
         in case generateClarifyingQuestions env proposal (the (promptContent msg))
                   labelContext' label' providerId of
              Inr result \<Rightarrow>
                \<lparr>success = True, error = None, refinedText = None, needsClarification = None,
                 questions = Some (ClarificationResult.questions result),
                 missing = Some (ClarificationResult.missing result),
                 importanceScore = Some (ClarificationResult.importanceScore result)\<rparr>
            | Inl err \<Rightarrow> failure (message err)))"

section \<open>ClarificationChat.tsx\<close>

record ConversationMessage =
  role :: Role
  content :: string

text \<open>
  The chat's React state, and what it has done to the outside: \<open>sent\<close> lists the
  \<^verbatim>\<open>conversationHistory\<close> of every \<^verbatim>\<open>generateFinalRefinedPrompt\<close> message sent, in
  order; \<open>completed\<close> is the text \<^verbatim>\<open>onComplete\<close> was called with; \<open>cancelled\<close> says
  that \<^verbatim>\<open>onCancel\<close> was called; \<open>alerts\<close> lists the messages shown by \<^verbatim>\<open>alert\<close>.
\<close>

record ClarificationChat =
  conversation :: "ConversationMessage list"
  currentAnswer :: string
  isLoading :: bool
  currentQuestionIndex :: nat
  questions :: "string list"
  answers :: "string list"
  isGeneratingQuestions :: bool
  error :: "string option"
  sent :: "ConversationMessage list list"
  completed :: "string option"
  cancelled :: bool
  alerts :: "string list"

definition ClarificationChat_init :: ClarificationChat where
  "ClarificationChat_init =
     \<lparr>conversation = [], currentAnswer = [], isLoading = False, currentQuestionIndex = 0,
      questions = [], answers = [], isGeneratingQuestions = True, error = None,
      sent = [], completed = None, cancelled = False, alerts = []\<rparr>"

definition refine_failed :: string where
  "refine_failed = ''Failed to generate refined prompt. Please check your API key and try again.''"

text \<open>\<^verbatim>\<open>setError(errorMessage); alert(errorMessage);\<close>\<close>

definition show_error :: "string \<Rightarrow> ClarificationChat \<Rightarrow> ClarificationChat" where
  "show_error m st = st\<lparr>ClarificationChat.error := Some m, alerts := alerts st @ [m]\<rparr>"

text \<open>
  The outcome of one \<^verbatim>\<open>sendMessage\<close>: the promise rejects (a timeout, a closed
  connection) or resolves to the background's response.
\<close>

type_synonym outcome = "js_error + Response"

text \<open>
  The effect run on mount. \<open>questionsOutcome\<close> answers the
  \<^verbatim>\<open>generateClarifyingQuestions\<close> message and \<open>refineOutcome\<close> answers the
  \<^verbatim>\<open>generateFinalRefinedPrompt\<close> message, if one is sent. An array is truthy, also the
  empty one. In the inner \<^verbatim>\<open>catch\<close> the test \<^verbatim>\<open>questions.length === 0\<close> reads the state
  of the first render, which is the empty list.
\<close>

definition generateQuestions :: "outcome \<Rightarrow> outcome \<Rightarrow> ClarificationChat" where
  "generateQuestions questionsOutcome refineOutcome =
     (let st = ClarificationChat_init;
          failed = (\<lambda>m s. (show_error m s)\<lparr>cancelled := True\<rparr>)
      in (case questionsOutcome of
            Inl err \<Rightarrow> failed (message err) st
          | Inr questionsResponse \<Rightarrow>
              if success questionsResponse \<and> Response.questions questionsResponse \<noteq> None then
                (let generatedQuestions = the (Response.questions questionsResponse);
                     st1 = st\<lparr>ClarificationChat.questions := generatedQuestions\<rparr>
                 in if length generatedQuestions = 0 then
                      (let st2 = st1\<lparr>sent := sent st1 @ [[]]\<rparr> in
                       case refineOutcome of
                         Inl refineError \<Rightarrow> failed (message refineError) st2
                       | Inr refineResponse \<Rightarrow>
                           if success refineResponse
                              \<and> truthy_string (refinedText refineResponse)
                           then st2\<lparr>completed := refinedText refineResponse\<rparr>
                           else failed
                                  (if truthy_string (Response.error refineResponse)
                                   then the (Response.error refineResponse) else refine_failed)
                                  st2)
                    else
                      st1\<lparr>conversation :=
                            [\<lparr>role = assistant, content = generatedQuestions ! 0\<rparr>]\<rparr>)
              else
                failed (if truthy_string (Response.error questionsResponse)
                        then the (Response.error questionsResponse)
                        else ''Failed to generate questions'') st)
         \<lparr>isGeneratingQuestions := False\<rparr>)"

text \<open>
  The end of a \<^verbatim>\<open>generateFinalRefinedPrompt\<close> round trip in \<^verbatim>\<open>handleSend\<close> and
  \<^verbatim>\<open>handleAnswerLater\<close>: \<^verbatim>\<open>onComplete\<close> on a successful response with a non-empty
  text, the error message otherwise, and \<^verbatim>\<open>setIsLoading(false)\<close> in every case.
\<close>

definition refine_done :: "outcome \<Rightarrow> ClarificationChat \<Rightarrow> ClarificationChat" where
  "refine_done refineOutcome st =
     (case refineOutcome of
        Inl err \<Rightarrow> show_error (message err) st
      | Inr refineResponse \<Rightarrow>
          if success refineResponse \<and> truthy_string (refinedText refineResponse)
          then st\<lparr>completed := refinedText refineResponse\<rparr>
          else show_error
                 (if truthy_string (Response.error refineResponse)
                  then the (Response.error refineResponse) else refine_failed) st)
     \<lparr>isLoading := False\<rparr>"

text \<open>
  \<^verbatim>\<open>handleSend\<close>. When a question is left, the next one is appended by the 600 ms timer;
  until it fires \<open>isLoading\<close> is true and both handlers return at once, so the timer's
  update is taken here with the rest. \<open>refineOutcome\<close> answers the
  \<^verbatim>\<open>generateFinalRefinedPrompt\<close> message, if one is sent.
\<close>

definition handleSend :: "outcome \<Rightarrow> ClarificationChat \<Rightarrow> ClarificationChat" where
  "handleSend refineOutcome st =
     (if trim (currentAnswer st) = [] \<or> isLoading st then st
      else
        (let answer = trim (currentAnswer st);
             updatedConv = conversation st @ [\<lparr>role = user, content = answer\<rparr>];
             st1 = st\<lparr>answers := answers st @ [answer], conversation := updatedConv,
                      currentAnswer := [], isLoading := True\<rparr>
         in if int (currentQuestionIndex st) < int (length (ClarificationChat.questions st)) - 1
            then
              (let nextIndex = currentQuestionIndex st + 1
               in st1\<lparr>currentQuestionIndex := nextIndex,
                       conversation := updatedConv @
                         [\<lparr>role = assistant,
                           content = ClarificationChat.questions st ! nextIndex\<rparr>],
                       isLoading := False\<rparr>)
            else refine_done refineOutcome (st1\<lparr>sent := sent st1 @ [updatedConv]\<rparr>)))"

definition handleAnswerLater :: "outcome \<Rightarrow> ClarificationChat \<Rightarrow> ClarificationChat" where
  "handleAnswerLater refineOutcome st =
     (if isLoading st \<or> isGeneratingQuestions st then st
      else
        (let st1 = st\<lparr>isLoading := True\<rparr>
         in if int (currentQuestionIndex st) < int (length (ClarificationChat.questions st)) - 1
            then
              (let nextIndex = currentQuestionIndex st + 1
               in st1\<lparr>currentQuestionIndex := nextIndex,
                       conversation := conversation st @
                         [\<lparr>role = assistant,
                           content = ClarificationChat.questions st ! nextIndex\<rparr>],
                       isLoading := False\<rparr>)
            else refine_done refineOutcome (st1\<lparr>sent := sent st1 @ [conversation st]\<rparr>)))"

text \<open>
  What the user does: type into the answer box, press Send, press "Answer later", press
  the back arrow. The answer box and the Send button are disabled while loading or
  generating questions; the "Answer later" button is shown under the last message when
  that message is not a user turn. \<^verbatim>\<open>onComplete\<close> and \<^verbatim>\<open>onCancel\<close> make the editor
  unmount the chat, which ends the session.
\<close>

datatype chat_event =
    typeAnswer string
  | pressSend outcome
  | pressAnswerLater outcome
  | pressBack

fun chat_step :: "ClarificationChat \<Rightarrow> chat_event \<Rightarrow> ClarificationChat" where
  "chat_step st ev =
     (if completed st \<noteq> None \<or> cancelled st then st
      else case ev of
             typeAnswer t \<Rightarrow>
               (if isLoading st \<or> isGeneratingQuestions st then st
                else st\<lparr>currentAnswer := t\<rparr>)
           | pressSend r \<Rightarrow>
               (if isGeneratingQuestions st then st else handleSend r st)
           | pressAnswerLater r \<Rightarrow>
               (if conversation st \<noteq> []
                   \<and> ConversationMessage.role (last (conversation st)) \<noteq> user
                then handleAnswerLater r st else st)
           | pressBack \<Rightarrow> st\<lparr>cancelled := True\<rparr>)"

definition chat_run :: "ClarificationChat \<Rightarrow> chat_event list \<Rightarrow> ClarificationChat" where
  "chat_run st evs = foldl chat_step st evs"

text \<open>
  The shape a transcript should have: for each question in order its assistant turn,
  followed by the user's answer when there is one. \<open>well_formed\<close> decides that shape:
  one assistant turn per question, in order, each followed by at most one user turn.
\<close>

fun turns :: "string \<Rightarrow> string option \<Rightarrow> ConversationMessage list" where
  "turns q None = [\<lparr>role = assistant, content = q\<rparr>]"
| "turns q (Some a) = [\<lparr>role = assistant, content = q\<rparr>, \<lparr>role = user, content = a\<rparr>]"

fun transcript :: "string list \<Rightarrow> string option list \<Rightarrow> ConversationMessage list" where
  "transcript (q # qs) (d # ds) = turns q d @ transcript qs ds"
| "transcript _ _ = []"

fun well_formed :: "string list \<Rightarrow> ConversationMessage list \<Rightarrow> bool" where
  "well_formed [] conv = (conv = [])"
| "well_formed (q # qs) [] = False"
| "well_formed (q # qs) (m # ms) =
     (m = \<lparr>role = assistant, content = q\<rparr>
      \<and> (well_formed qs ms
         \<or> (case ms of
               u # ms' \<Rightarrow> ConversationMessage.role u = user \<and> well_formed qs ms'
             | [] \<Rightarrow> False)))"

text \<open>
  The state when the first question is on screen: the mount effect, answered with the
  questions \<open>qs\<close>.
\<close>

definition questions_response :: "string list \<Rightarrow> Response" where
  "questions_response qs =
     \<lparr>success = True, error = None, refinedText = None, needsClarification = None,
      questions = Some qs, missing = Some [], importanceScore = Some 3\<rparr>"

definition refined_response :: "string \<Rightarrow> Response" where
  "refined_response t =
     \<lparr>success = True, error = None, refinedText = Some t, needsClarification = None,
      questions = None, missing = None, importanceScore = None\<rparr>"

definition started :: "string list \<Rightarrow> ClarificationChat" where
  "started qs = generateQuestions (Inr (questions_response qs)) (Inl (Error ''unused''))"

text \<open>One decision per question: submit an answer, or defer.\<close>

fun decide :: "string option \<times> outcome \<Rightarrow> chat_event list" where
  "decide (Some a, r) = [typeAnswer a, pressSend r]"
| "decide (None, r) = [pressAnswerLater r]"

text \<open>
  What a decision puts into the transcript (\<open>answered\<close>: the trimmed answer, or
  nothing), and whether Send accepts it (\<open>nonblank\<close>).
\<close>

fun answered :: "string option \<times> outcome \<Rightarrow> string option" where
  "answered (d, r) = map_option trim d"

fun nonblank :: "string option \<times> outcome \<Rightarrow> bool" where
  "nonblank (Some a, r) = (trim a \<noteq> [])"
| "nonblank (None, r) = True"

text \<open>
  The invariants of the proofs. A transcript is \<open>formed\<close> when it is the transcript of
  one decision per question, followed by further user turns. \<open>chat_inv\<close> holds of every
  state the chat reaches: before the first \<^verbatim>\<open>generateFinalRefinedPrompt\<close> message the
  chat waits for the answer to question \<open>currentQuestionIndex\<close>, the earlier questions
  being in the conversation with their answers, if any; afterwards it stays at the last
  question, and the conversation is the transcript sent last. \<open>awaiting\<close> fixes the
  question index and the conversation of a chat that has sent nothing yet.
\<close>

definition formed :: "string list \<Rightarrow> ConversationMessage list \<Rightarrow> bool" where
  "formed qs c \<longleftrightarrow>
     (\<exists>ds xs. length ds = length qs
        \<and> c = transcript qs ds @ map (\<lambda>a. \<lparr>role = user, content = a\<rparr>) xs)"

definition chat_inv :: "string list \<Rightarrow> ClarificationChat \<Rightarrow> bool" where
  "chat_inv qs st \<longleftrightarrow>
     ClarificationChat.questions st = qs \<and> \<not> isLoading st \<and> \<not> isGeneratingQuestions st
     \<and> currentQuestionIndex st < length qs
     \<and> (if sent st = []
        then (\<exists>ds. length ds = currentQuestionIndex st
                \<and> conversation st = transcript (take (currentQuestionIndex st) qs) ds
                     @ [\<lparr>role = assistant, content = qs ! currentQuestionIndex st\<rparr>])
        else Suc (currentQuestionIndex st) = length qs
             \<and> conversation st = last (sent st)
             \<and> well_formed qs (hd (sent st))
             \<and> list_all (formed qs) (sent st))"

definition awaiting ::
  "string list \<Rightarrow> nat \<Rightarrow> ConversationMessage list \<Rightarrow> ClarificationChat \<Rightarrow> bool" where
  "awaiting qs i conv st \<longleftrightarrow>
     ClarificationChat.questions st = qs \<and> currentQuestionIndex st = i
     \<and> conversation st = conv \<and> \<not> isLoading st \<and> \<not> isGeneratingQuestions st
     \<and> completed st = None \<and> \<not> cancelled st \<and> sent st = []"

text \<open>A network that answers every request with the same outcome.\<close>

definition replying :: "js_error + http_response \<Rightarrow> fetch" where
  "replying res = (\<lambda>rq. res)"


text \<open>
  A server that rejects every request with status 401 and quotes the credential it was
  sent in the body of its reply: the \<^verbatim>\<open>Authorization\<close> or \<^verbatim>\<open>x-api-key\<close> header, or
  else the URL.
\<close>

definition echoing :: fetch where
  "echoing rq =
     Inr \<lparr>ok = False, status = 401, statusText = ''Unauthorized'',
          text_body = Some (''Incorrect API key provided: '' @
            (case map_of (headers rq) ''Authorization'' of
               Some v \<Rightarrow> v
             | None \<Rightarrow> (case map_of (headers rq) ''x-api-key'' of
                           Some v \<Rightarrow> v
                         | None \<Rightarrow> url rq))),
          json_body = Inl (SyntaxError ''Unexpected token I in JSON at position 0'')\<rparr>"

section \<open>Example data\<close>

definition ex_store :: prompt_store where
  "ex_store =
     \<lparr>items =
        \<lparr>prompts_entry = Some
           [\<lparr>Prompt.name = ''mail'', content = ''Write a mail'', labels = [''work'', ''urgent''],
              originalContent = None\<rparr>,
            \<lparr>Prompt.name = ''poem'', content = ''Write a poem'', labels = [''fun''],
              originalContent = Some ''poem''\<rparr>],
         labels_entry = Some
           [\<lparr>Label.name = ''work'', label_context = ''office'', icon = None, color = None\<rparr>,
            \<lparr>Label.name = ''fun'', label_context = ''leisure'', icon = None, color = None\<rparr>]\<rparr>,
      read_fault = None, write_fault = None\<rparr>"

definition ex_request :: ChatCompletionRequest where
  "ex_request =
     \<lparr>model = ''m1'',
      messages = [\<lparr>ChatMessage.role = system, content = ''Be brief''\<rparr>,
                  \<lparr>ChatMessage.role = user, content = ''Hi''\<rparr>,
                  \<lparr>ChatMessage.role = assistant, content = ''Hello''\<rparr>,
                  \<lparr>ChatMessage.role = user, content = ''Bye''\<rparr>],
      temperature = None, maxTokens = None\<rparr>"

definition ex_reply :: "bool \<Rightarrow> nat \<Rightarrow> string \<Rightarrow> json \<Rightarrow> http_response" where
  "ex_reply is_ok code txt data =
     \<lparr>ok = is_ok, status = code, statusText = ''status'', text_body = Some txt,
      json_body = Inr data\<rparr>"

definition ex_credentials :: "json chrome_local" where
  "ex_credentials =
     \<lparr>local_items = [(''selected_provider'', JStr ''openai''),
                      (''provider_api_keys'', JObj [(''openai'', JStr ''sk-1'')])],
      get_fault = None, set_fault = None\<rparr>"

definition ex_proposal :: ClarificationResult where
  "ex_proposal =
     \<lparr>ClarificationResult.questions = [''q1'', ''q2'', ''q3'', ''q4'', ''q5''],
      missing = [''topic'', ''audience''], importanceScore = 2\<rparr>"

section \<open>Properties\<close>

text \<open>
  C10. The credential reads never reject. For every state of the storage layer and every
  provider id, the promise of \<open>getProviderApiKey\<close> resolves, and it resolves to
  \<^verbatim>\<open>undefined\<close> whenever the storage read fails (the call throws or reports
  \<^verbatim>\<open>lastError\<close>); the same holds for \<open>getSelectedProvider\<close>. A failed read gives the
  caller exactly what a store with no such entry gives: the same \<^verbatim>\<open>undefined\<close>.
\<close>

theorem credential_reads_never_reject:
  "(\<exists>v. fst (getProviderApiKey env providerId) = Inr v)
   \<and> (\<exists>v. fst (getSelectedProvider env) = Inr v)
   \<and> (get_fault env \<noteq> None \<longrightarrow>
        fst (getProviderApiKey env providerId) = Inr None
        \<and> fst (getSelectedProvider env) = Inr None
        \<and> fst (getProviderApiKey env providerId)
            = fst (getProviderApiKey \<lparr>local_items = [], get_fault = None, set_fault = None\<rparr>
                 providerId)
        \<and> fst (getSelectedProvider env)
            = fst (getSelectedProvider \<lparr>local_items = [], get_fault = None, set_fault = None\<rparr>))"
  by (auto simp: getProviderApiKey_def getSelectedProvider_def storage_get_def Let_def
      split: option.splits fault.splits sum.splits)

theorem credential_reads_never_reject_witness:
  "get_fault \<lparr>local_items = [(''provider_api_keys'', JObj [(''openai'', JStr ''sk-1'')])],
      get_fault = Some (LastError ''quota''), set_fault = None\<rparr> \<noteq> None
   \<and> fst (getProviderApiKey
        \<lparr>local_items = [(''provider_api_keys'', JObj [(''openai'', JStr ''sk-1'')])],
         get_fault = Some (LastError ''quota''), set_fault = None\<rparr> openai) = Inr None
   \<and> fst (getSelectedProvider
        \<lparr>local_items = [(''provider_api_keys'', JObj [(''openai'', JStr ''sk-1'')])],
         get_fault = Some (LastError ''quota''), set_fault = None\<rparr>) = Inr None"
  using credential_reads_never_reject
    [of "\<lparr>local_items = [(''provider_api_keys'', JObj [(''openai'', JStr ''sk-1'')])],
          get_fault = Some (LastError ''quota''), set_fault = None\<rparr>" openai]
  by simp

subsection \<open>Label rename and deletion\<close>

lemma getAllPrompts_Inr:
  "getAllPrompts env = Inr ps \<longleftrightarrow>
     read_fault env = None \<and> ps = (case prompts_entry (items env) of Some ps \<Rightarrow> ps | None \<Rightarrow> [])"
  by (auto simp: getAllPrompts_def getStorageData_def prompt_storage_get_def
      split: option.splits fault.splits sum.splits)

lemma saveStorageData_Inr:
  "saveStorageData env data = Inr env' \<longleftrightarrow>
     write_fault env = None \<and>
     env' = env\<lparr>items := \<lparr>prompts_entry = Some (prompts data),
                            labels_entry = Some (StorageData.labels data)\<rparr>\<rparr>"
  by (auto simp: saveStorageData_def prompt_storage_set_def split: option.splits fault.splits)

lemma getStorageData_Inr:
  "getStorageData env = Inr data \<Longrightarrow> getAllPrompts env = Inr (prompts data)"
  by (simp add: getAllPrompts_def)

lemma saveLabel_rename_prompts:
  assumes "saveLabel env lbl (Some oldName) = Inr env'" and "oldName \<noteq> Label.name lbl"
  shows "\<exists>ps. getAllPrompts env = Inr ps \<and>
     getAllPrompts env' =
       Inr (map (\<lambda>p. p\<lparr>Prompt.labels :=
                   map (\<lambda>l. if l = oldName then Label.name lbl else l) (Prompt.labels p)\<rparr>) ps)"
proof -
  from assms(1) have body: "saveLabel_body env lbl (Some oldName) = Inr env'"
    by (auto simp: saveLabel_def split: if_splits sum.splits)
  then obtain data where data: "getStorageData env = Inr data"
    by (auto simp: saveLabel_body_def split: sum.splits)
  with body assms(2) have
    "saveStorageData env
       \<lparr>prompts = map (\<lambda>p. p\<lparr>Prompt.labels :=
                   map (\<lambda>l. if l = oldName then Label.name lbl else l) (Prompt.labels p)\<rparr>)
                  (prompts data),
        labels = (StorageData.labels data)
           [the (findIndex (\<lambda>l. Label.name l = oldName) (StorageData.labels data)) := lbl]\<rparr>
     = Inr env'"
    by (auto simp: saveLabel_body_def Let_def split: option.splits)
  then have "getAllPrompts env' = Inr (map (\<lambda>p. p\<lparr>Prompt.labels :=
                   map (\<lambda>l. if l = oldName then Label.name lbl else l) (Prompt.labels p)\<rparr>)
                  (prompts data))"
    using data
    by (auto simp: saveStorageData_Inr getAllPrompts_Inr getStorageData_def prompt_storage_get_def
        split: option.splits fault.splits sum.splits)
  with getStorageData_Inr[OF data] show ?thesis by blast
qed

lemma filter_absent: "n \<notin> set xs \<Longrightarrow> filter (\<lambda>l. l \<noteq> n) xs = xs"
  by (induction xs) auto

lemma deleteLabel_prompts:
  assumes "deleteLabel env n = Inr env'"
  shows "\<exists>ps. getAllPrompts env = Inr ps \<and>
     getAllPrompts env' =
       Inr (map (\<lambda>p. p\<lparr>Prompt.labels := filter (\<lambda>l. l \<noteq> n) (Prompt.labels p)\<rparr>) ps)"
proof -
  have same: "map (\<lambda>prompt. if n \<in> set (Prompt.labels prompt)
                   then prompt\<lparr>Prompt.labels := filter (\<lambda>l. l \<noteq> n) (Prompt.labels prompt)\<rparr>
                   else prompt) ps
            = map (\<lambda>p. p\<lparr>Prompt.labels := filter (\<lambda>l. l \<noteq> n) (Prompt.labels p)\<rparr>) ps" for ps
    by (rule map_cong) (auto simp: filter_absent)
  from assms obtain data where data: "getStorageData env = Inr data"
    by (auto simp: deleteLabel_def split: sum.splits)
  show ?thesis
  proof (cases "length (filter (\<lambda>l. Label.name l \<noteq> n) (StorageData.labels data))
                  < length (StorageData.labels data)
                \<or> (\<exists>prompt \<in> set (prompts data). n \<in> set (Prompt.labels prompt))")
    case True
    with assms data have "saveStorageData env
        \<lparr>prompts = map (\<lambda>p. p\<lparr>Prompt.labels := filter (\<lambda>l. l \<noteq> n) (Prompt.labels p)\<rparr>)
                     (prompts data),
         labels = filter (\<lambda>l. Label.name l \<noteq> n) (StorageData.labels data)\<rparr> = Inr env'"
      by (auto simp: deleteLabel_def Let_def same split: sum.splits if_splits)
    then have "getAllPrompts env' =
       Inr (map (\<lambda>p. p\<lparr>Prompt.labels := filter (\<lambda>l. l \<noteq> n) (Prompt.labels p)\<rparr>) (prompts data))"
      using data
      by (auto simp: saveStorageData_Inr getAllPrompts_Inr getStorageData_def prompt_storage_get_def
          split: option.splits fault.splits sum.splits)
    with getStorageData_Inr[OF data] show ?thesis by blast
  next
    case False
    with assms data have "env' = env"
      by (auto simp: deleteLabel_def Let_def split: sum.splits if_splits)
    moreover from False have
      "map (\<lambda>p. p\<lparr>Prompt.labels := filter (\<lambda>l. l \<noteq> n) (Prompt.labels p)\<rparr>) (prompts data)
       = prompts data"
      by (auto simp: filter_absent intro!: map_idI)
    ultimately show ?thesis using getStorageData_Inr[OF data] by simp
  qed
qed

text \<open>
  C6. Renaming a label (\<open>saveLabel\<close> with an \<open>oldName\<close> other than the label's name),
  when it succeeds, rewrites the stored prompts and nothing else of them: every
  occurrence of the old name in a prompt's \<open>labels\<close> array becomes the new name, and a
  prompt that does not reference the old name is stored unchanged. Deleting a label
  (\<open>deleteLabel\<close>), when it succeeds, removes that name from every prompt's \<open>labels\<close>
  array and deletes no prompt: the stored prompts keep their number, order, names and
  contents.
\<close>

theorem label_rename_and_delete_update_prompts:
  "(saveLabel env lbl (Some oldName) = Inr env1 \<and> oldName \<noteq> Label.name lbl \<longrightarrow>
      (\<exists>ps. getAllPrompts env = Inr ps
         \<and> getAllPrompts env1 =
             Inr (map (\<lambda>p. p\<lparr>Prompt.labels :=
                    map (\<lambda>l. if l = oldName then Label.name lbl else l) (Prompt.labels p)\<rparr>) ps)
         \<and> (\<forall>p \<in> set ps. oldName \<notin> set (Prompt.labels p) \<longrightarrow>
               p\<lparr>Prompt.labels :=
                   map (\<lambda>l. if l = oldName then Label.name lbl else l) (Prompt.labels p)\<rparr> = p)))
   \<and> (deleteLabel env n = Inr env2 \<longrightarrow>
      (\<exists>ps. getAllPrompts env = Inr ps
         \<and> getAllPrompts env2 =
             Inr (map (\<lambda>p. p\<lparr>Prompt.labels := filter (\<lambda>l. l \<noteq> n) (Prompt.labels p)\<rparr>) ps)
         \<and> (\<forall>ps2. getAllPrompts env2 = Inr ps2 \<longrightarrow>
               length ps2 = length ps
               \<and> map Prompt.name ps2 = map Prompt.name ps
               \<and> map Prompt.content ps2 = map Prompt.content ps
               \<and> (\<forall>p \<in> set ps2. n \<notin> set (Prompt.labels p)))))"
proof (intro conjI impI)
  assume a: "saveLabel env lbl (Some oldName) = Inr env1 \<and> oldName \<noteq> Label.name lbl"
  have same: "p\<lparr>Prompt.labels :=
       map (\<lambda>l. if l = oldName then Label.name lbl else l) (Prompt.labels p)\<rparr> = p"
    if "oldName \<notin> set (Prompt.labels p)" for p :: Prompt
  proof -
    from that have "map (\<lambda>l. if l = oldName then Label.name lbl else l) (Prompt.labels p)
        = Prompt.labels p"
      by (intro map_idI) auto
    then show ?thesis by simp
  qed
  from a saveLabel_rename_prompts[of env lbl oldName env1] same
  show "\<exists>ps. getAllPrompts env = Inr ps
         \<and> getAllPrompts env1 =
             Inr (map (\<lambda>p. p\<lparr>Prompt.labels :=
                    map (\<lambda>l. if l = oldName then Label.name lbl else l) (Prompt.labels p)\<rparr>) ps)
         \<and> (\<forall>p \<in> set ps. oldName \<notin> set (Prompt.labels p) \<longrightarrow>
               p\<lparr>Prompt.labels :=
                   map (\<lambda>l. if l = oldName then Label.name lbl else l) (Prompt.labels p)\<rparr> = p)"
    by blast
next
  assume a: "deleteLabel env n = Inr env2"
  from deleteLabel_prompts[OF a] obtain ps where
    ps: "getAllPrompts env = Inr ps"
      "getAllPrompts env2 =
         Inr (map (\<lambda>p. p\<lparr>Prompt.labels := filter (\<lambda>l. l \<noteq> n) (Prompt.labels p)\<rparr>) ps)"
    by blast
  have "\<forall>ps2. getAllPrompts env2 = Inr ps2 \<longrightarrow>
               length ps2 = length ps
               \<and> map Prompt.name ps2 = map Prompt.name ps
               \<and> map Prompt.content ps2 = map Prompt.content ps
               \<and> (\<forall>p \<in> set ps2. n \<notin> set (Prompt.labels p))"
    using ps(2) by (auto simp: comp_def)
  with ps show "\<exists>ps. getAllPrompts env = Inr ps
         \<and> getAllPrompts env2 =
             Inr (map (\<lambda>p. p\<lparr>Prompt.labels := filter (\<lambda>l. l \<noteq> n) (Prompt.labels p)\<rparr>) ps)
         \<and> (\<forall>ps2. getAllPrompts env2 = Inr ps2 \<longrightarrow>
               length ps2 = length ps
               \<and> map Prompt.name ps2 = map Prompt.name ps
               \<and> map Prompt.content ps2 = map Prompt.content ps
               \<and> (\<forall>p \<in> set ps2. n \<notin> set (Prompt.labels p)))"
    by blast
qed

lemma ex_rename:
  "saveLabel ex_store
      \<lparr>Label.name = ''job'', label_context = ''office'', icon = None, color = None\<rparr>
      (Some ''work'')
   = Inr (ex_store\<lparr>items :=
        \<lparr>prompts_entry = Some
           [\<lparr>Prompt.name = ''mail'', content = ''Write a mail'', labels = [''job'', ''urgent''],
              originalContent = None\<rparr>,
            \<lparr>Prompt.name = ''poem'', content = ''Write a poem'', labels = [''fun''],
              originalContent = Some ''poem''\<rparr>],
         labels_entry = Some
           [\<lparr>Label.name = ''job'', label_context = ''office'', icon = None, color = None\<rparr>,
            \<lparr>Label.name = ''fun'', label_context = ''leisure'', icon = None, color = None\<rparr>]\<rparr>\<rparr>)"
  by (simp add: saveLabel_def saveLabel_body_def getStorageData_def prompt_storage_get_def
      saveStorageData_def prompt_storage_set_def ex_store_def trim_def is_space_def Let_def)

lemma ex_delete:
  "deleteLabel ex_store ''work''
   = Inr (ex_store\<lparr>items :=
        \<lparr>prompts_entry = Some
           [\<lparr>Prompt.name = ''mail'', content = ''Write a mail'', labels = [''urgent''],
              originalContent = None\<rparr>,
            \<lparr>Prompt.name = ''poem'', content = ''Write a poem'', labels = [''fun''],
              originalContent = Some ''poem''\<rparr>],
         labels_entry = Some
           [\<lparr>Label.name = ''fun'', label_context = ''leisure'', icon = None, color = None\<rparr>]\<rparr>\<rparr>)"
  by (simp add: deleteLabel_def getStorageData_def prompt_storage_get_def
      saveStorageData_def prompt_storage_set_def ex_store_def Let_def)

theorem label_rename_and_delete_update_prompts_witness:
  "saveLabel ex_store
      \<lparr>Label.name = ''job'', label_context = ''office'', icon = None, color = None\<rparr>
      (Some ''work'')
     = Inr (ex_store\<lparr>items :=
        \<lparr>prompts_entry = Some
           [\<lparr>Prompt.name = ''mail'', content = ''Write a mail'', labels = [''job'', ''urgent''],
              originalContent = None\<rparr>,
            \<lparr>Prompt.name = ''poem'', content = ''Write a poem'', labels = [''fun''],
              originalContent = Some ''poem''\<rparr>],
         labels_entry = Some
           [\<lparr>Label.name = ''job'', label_context = ''office'', icon = None, color = None\<rparr>,
            \<lparr>Label.name = ''fun'', label_context = ''leisure'', icon = None, color = None\<rparr>]\<rparr>\<rparr>)
   \<and> ''work'' \<noteq> ''job''
   \<and> deleteLabel ex_store ''work''
     = Inr (ex_store\<lparr>items :=
        \<lparr>prompts_entry = Some
           [\<lparr>Prompt.name = ''mail'', content = ''Write a mail'', labels = [''urgent''],
              originalContent = None\<rparr>,
            \<lparr>Prompt.name = ''poem'', content = ''Write a poem'', labels = [''fun''],
              originalContent = Some ''poem''\<rparr>],
         labels_entry = Some
           [\<lparr>Label.name = ''fun'', label_context = ''leisure'', icon = None, color = None\<rparr>]\<rparr>\<rparr>)
   \<and> getAllPrompts ex_store
     = Inr [\<lparr>Prompt.name = ''mail'', content = ''Write a mail'', labels = [''work'', ''urgent''],
              originalContent = None\<rparr>,
            \<lparr>Prompt.name = ''poem'', content = ''Write a poem'', labels = [''fun''],
              originalContent = Some ''poem''\<rparr>]"
  using label_rename_and_delete_update_prompts
    [of ex_store "\<lparr>Label.name = ''job'', label_context = ''office'', icon = None, color = None\<rparr>"
      "''work''"
      "ex_store\<lparr>items :=
        \<lparr>prompts_entry = Some
           [\<lparr>Prompt.name = ''mail'', content = ''Write a mail'', labels = [''job'', ''urgent''],
              originalContent = None\<rparr>,
            \<lparr>Prompt.name = ''poem'', content = ''Write a poem'', labels = [''fun''],
              originalContent = Some ''poem''\<rparr>],
         labels_entry = Some
           [\<lparr>Label.name = ''job'', label_context = ''office'', icon = None, color = None\<rparr>,
            \<lparr>Label.name = ''fun'', label_context = ''leisure'', icon = None, color = None\<rparr>]\<rparr>\<rparr>"
      "''work''"
      "ex_store\<lparr>items :=
        \<lparr>prompts_entry = Some
           [\<lparr>Prompt.name = ''mail'', content = ''Write a mail'', labels = [''urgent''],
              originalContent = None\<rparr>,
            \<lparr>Prompt.name = ''poem'', content = ''Write a poem'', labels = [''fun''],
              originalContent = Some ''poem''\<rparr>],
         labels_entry = Some
           [\<lparr>Label.name = ''fun'', label_context = ''leisure'', icon = None, color = None\<rparr>]\<rparr>\<rparr>"]
    ex_rename ex_delete
  by (simp add: getAllPrompts_def getStorageData_def prompt_storage_get_def ex_store_def)

subsection \<open>The archived original content\<close>

lemma onComplete_original:
  "originalContentBeforeRefinement (onComplete cl refined st) =
     (if \<not> truthy_string (closure_original cl) \<and> trim refined \<noteq> trim (closure_content cl)
      then Some (closure_content cl)
      else originalContentBeforeRefinement st)"
  by (simp add: onComplete_def Let_def)

text \<open>
  C4. The code breaks the claim. A prompt with nothing archived and the content
  \<open>draft\<close> is opened; the user presses Refine and leaves the chat with the back arrow
  while its request is under way, changes the content to \<open>second draft\<close>, and presses
  Refine again. The second chat completes and archives \<open>second draft\<close>. Then the response
  of the first chat arrives: its \<^verbatim>\<open>onComplete\<close> still sees the content \<open>draft\<close> and an
  empty archive, and writes \<open>draft\<close> over the archived \<open>second draft\<close>, which is
  what the next save stores as \<open>originalContent\<close>.
\<close>

theorem stale_completion_overwrites_original:
  "originalContentBeforeRefinement (editor (editor_run
      (editing_init \<lparr>Prompt.name = ''p'', content = ''draft'', labels = [],
         originalContent = None\<rparr>)
      [handleRefine, chatCancel, setContent ''second draft'', handleRefine,
       chatComplete 1 ''refined two''])) = Some ''second draft''
   \<and> originalContentBeforeRefinement (editor (editor_run
      (editing_init \<lparr>Prompt.name = ''p'', content = ''draft'', labels = [],
         originalContent = None\<rparr>)
      [handleRefine, chatCancel, setContent ''second draft'', handleRefine,
       chatComplete 1 ''refined two'', chatComplete 0 ''refined one''])) = Some ''draft''
   \<and> savedPrompt (editor (editor_run
      (editing_init \<lparr>Prompt.name = ''p'', content = ''draft'', labels = [],
         originalContent = None\<rparr>)
      [handleRefine, chatCancel, setContent ''second draft'', handleRefine,
       chatComplete 1 ''refined two'', chatComplete 0 ''refined one'']))
     = \<lparr>Prompt.name = ''p'', content = ''refined one'', labels = [],
        originalContent = Some ''draft''\<rparr>"
  by (simp add: editor_run_def editing_init_def PromptEditor_init_def onComplete_def Let_def
      savedPrompt_def trim_def is_space_def)

subsection \<open>The provider API adapter\<close>

lemma chatCompletion_fetch:
  "chatCompletion fetch provider apiKey request
     = chatCompletion (replying (fetch (sent_request provider apiKey request)))
         provider apiKey request"
  by (cases "provider_id provider")
     (simp_all add: chatCompletion_def sent_request_def Let_def openAIChatCompletion_def
        anthropicChatCompletion_def googleChatCompletion_def replying_def
        del: string_of_nat.simps)



lemma trim_idem: "trim (trim s) = trim s"
proof -
  define u where "u = dropWhile is_space s"
  define v where "v = dropWhile is_space (rev u)"
  have t: "trim s = rev v" by (simp add: trim_def u_def v_def)
  have "dropWhile is_space (rev v) = rev v"
  proof (cases "v = []")
    case True then show ?thesis by simp
  next
    case False
    obtain w where w: "rev u = w @ v"
      unfolding v_def by (metis takeWhile_dropWhile_id)
    then have "u = rev v @ rev w" by (metis rev_append rev_rev_ident)
    with False have "hd (rev v) = hd u" by simp
    moreover have "u \<noteq> []" using False v_def by auto
    then have "\<not> is_space (hd u)" unfolding u_def by (simp add: hd_dropWhile)
    ultimately show ?thesis using False by (cases "rev v") auto
  qed
  then have "trim (rev v) = rev (dropWhile is_space v)" by (simp add: trim_def)
  also have "\<dots> = rev v" by (simp add: v_def)
  finally show ?thesis by (simp add: t)
qed

lemma call_trim_trimmed: "call_trim e v = Inr (Some s) \<Longrightarrow> trim s = s"
  by (auto simp: call_trim_def trim_idem split: option.splits json.splits)

lemma openAI_content_trimmed: "openAI_content data = Inr (Some s) \<Longrightarrow> trim s = s"
  by (auto simp: openAI_content_def dest: call_trim_trimmed split: sum.splits)

lemma anthropic_content_trimmed: "anthropic_content data = Inr (Some s) \<Longrightarrow> trim s = s"
  by (auto simp: anthropic_content_def dest: call_trim_trimmed split: sum.splits)

lemma google_content_trimmed: "google_content data = Inr (Some s) \<Longrightarrow> trim s = s"
  by (auto simp: google_content_def dest: call_trim_trimmed split: sum.splits)

lemma truthy_string_Some: "truthy_string c \<longleftrightarrow> (\<exists>s. c = Some s \<and> s \<noteq> [])"
  by (cases c) simp_all

lemma openAI_success:
  "openAIChatCompletion fetch apiKey baseUrl mdl msgs temp = Inr c \<Longrightarrow>
   ChatCompletionResponse.content c \<noteq> [] \<and>
   trim (ChatCompletionResponse.content c) = ChatCompletionResponse.content c"
  by (auto simp: openAIChatCompletion_def truthy_string_Some
      dest: openAI_content_trimmed split: sum.splits if_splits)

lemma anthropic_success:
  "anthropicChatCompletion fetch apiKey baseUrl mdl msgs temp = Inr c \<Longrightarrow>
   ChatCompletionResponse.content c \<noteq> [] \<and>
   trim (ChatCompletionResponse.content c) = ChatCompletionResponse.content c"
  by (auto simp: anthropicChatCompletion_def truthy_string_Some
      dest: anthropic_content_trimmed split: sum.splits if_splits)

lemma google_success:
  "googleChatCompletion fetch apiKey baseUrl mdl msgs temp = Inr c \<Longrightarrow>
   ChatCompletionResponse.content c \<noteq> [] \<and>
   trim (ChatCompletionResponse.content c) = ChatCompletionResponse.content c"
  by (auto simp: googleChatCompletion_def truthy_string_Some
      dest: google_content_trimmed split: sum.splits if_splits)

lemma chatCompletion_fst:
  "fst (chatCompletion fetch provider apiKey request) =
     (case provider_id provider of
        openai \<Rightarrow> openAIChatCompletion fetch apiKey (apiBaseUrl provider) (model request)
          (messages request) (case temperature request of Some t \<Rightarrow> t | None \<Rightarrow> 0.7)
      | anthropic \<Rightarrow> anthropicChatCompletion fetch apiKey (apiBaseUrl provider) (model request)
          (messages request) (case temperature request of Some t \<Rightarrow> t | None \<Rightarrow> 0.7)
      | google \<Rightarrow> googleChatCompletion fetch apiKey (apiBaseUrl provider) (model request)
          (messages request) (case temperature request of Some t \<Rightarrow> t | None \<Rightarrow> 0.7))"
  by (simp add: chatCompletion_def Let_def split: sum.splits ProviderId.splits)

lemma chatCompletion_success:
  "fst (chatCompletion fetch provider apiKey request) = Inr c \<Longrightarrow>
   ChatCompletionResponse.content c \<noteq> [] \<and>
   trim (ChatCompletionResponse.content c) = ChatCompletionResponse.content c"
  unfolding chatCompletion_fst
  by (cases "provider_id provider")
     (simp_all add: openAI_success anthropic_success google_success)

text \<open>
  C8, as amended. A success reply never yields an empty string: every successful result
  of \<open>chatCompletion\<close> has content that is non-empty and trimmed, whatever the network
  does. On a success reply whose body is JSON and whose text position can be read (the
  value there is a string, \<^verbatim>\<open>null\<close> or missing), the call fails with the plain
  \<^verbatim>\<open>Error\<close> \<^verbatim>\<open><Provider> API returned no content\<close> when the text is missing, \<^verbatim>\<open>null\<close>
  or empty after trimming, and returns the trimmed text otherwise.
\<close>

theorem success_has_content:
  "(\<forall>c. fst (chatCompletion fetch provider apiKey request) = Inr c \<longrightarrow>
      ChatCompletionResponse.content c \<noteq> []
      \<and> trim (ChatCompletionResponse.content c) = ChatCompletionResponse.content c)
   \<and> (ok r \<and> json_body r = Inr data
       \<and> (case provider_id provider of
             openai \<Rightarrow> openAI_content data
           | anthropic \<Rightarrow> anthropic_content data
           | google \<Rightarrow> google_content data) = Inr v \<longrightarrow>
        fst (chatCompletion (replying (Inr r)) provider apiKey request) =
          (if truthy_string v
           then Inr \<lparr>ChatCompletionResponse.content = the v\<rparr>
           else Inl (Error ((case provider_id provider of
                               openai \<Rightarrow> ''OpenAI'' | anthropic \<Rightarrow> ''Anthropic''
                             | google \<Rightarrow> ''Google'') @ '' API returned no content''))))"
proof (intro conjI allI impI)
  fix c assume "fst (chatCompletion fetch provider apiKey request) = Inr c"
  from chatCompletion_success[OF this]
  show "ChatCompletionResponse.content c \<noteq> []"
    and "trim (ChatCompletionResponse.content c) = ChatCompletionResponse.content c"
    by simp_all
next
  assume "ok r \<and> json_body r = Inr data
       \<and> (case provider_id provider of
             openai \<Rightarrow> openAI_content data
           | anthropic \<Rightarrow> anthropic_content data
           | google \<Rightarrow> google_content data) = Inr v"
  then show "fst (chatCompletion (replying (Inr r)) provider apiKey request) =
          (if truthy_string v
           then Inr \<lparr>ChatCompletionResponse.content = the v\<rparr>
           else Inl (Error ((case provider_id provider of
                               openai \<Rightarrow> ''OpenAI'' | anthropic \<Rightarrow> ''Anthropic''
                             | google \<Rightarrow> ''Google'') @ '' API returned no content'')))"
    unfolding chatCompletion_fst
    by (cases "provider_id provider")
       (simp_all add: openAIChatCompletion_def anthropicChatCompletion_def
          googleChatCompletion_def replying_def)
qed

theorem success_has_content_witness:
  "fst (chatCompletion
          (replying (Inr (ex_reply True 200 ''ok''
             (JObj [(''content'', JArr [JObj [(''type'', JStr ''text''),
                                              (''text'', JStr ''  Hello '')]])]))))
          (PROVIDERS anthropic) ''sk-1'' ex_request) = Inr \<lparr>ChatCompletionResponse.content = ''Hello''\<rparr>
   \<and> ''Hello'' \<noteq> [] \<and> trim ''Hello'' = ''Hello''
   \<and> ok (ex_reply True 200 ''ok'' (JObj [(''content'', JArr [])]))
   \<and> json_body (ex_reply True 200 ''ok'' (JObj [(''content'', JArr [])]))
       = Inr (JObj [(''content'', JArr [])])
   \<and> anthropic_content (JObj [(''content'', JArr [])]) = Inr None
   \<and> fst (chatCompletion
          (replying (Inr (ex_reply True 200 ''ok'' (JObj [(''content'', JArr [])]))))
          (PROVIDERS anthropic) ''sk-1'' ex_request)
       = Inl (Error ''Anthropic API returned no content'')
   \<and> anthropic_content (JObj [(''content'', JArr [JObj [(''text'', JStr ''   '')]])])
       = Inr (Some [])
   \<and> fst (chatCompletion
          (replying (Inr (ex_reply True 200 ''ok''
             (JObj [(''content'', JArr [JObj [(''text'', JStr ''   '')]])]))))
          (PROVIDERS anthropic) ''sk-1'' ex_request)
       = Inl (Error ''Anthropic API returned no content'')"
  using success_has_content
    [where fetch = "replying (Inr (ex_reply True 200 ''ok''
           (JObj [(''content'', JArr [JObj [(''type'', JStr ''text''),
                                            (''text'', JStr ''  Hello '')]])])))"
      and provider = "PROVIDERS anthropic" and apiKey = "''sk-1''" and request = ex_request
      and r = "ex_reply True 200 ''ok''
           (JObj [(''content'', JArr [JObj [(''type'', JStr ''text''),
                                            (''text'', JStr ''  Hello '')]])])"
      and data = "JObj [(''content'', JArr [JObj [(''type'', JStr ''text''),
                                            (''text'', JStr ''  Hello '')]])]"
      and v = "Some ''Hello''"]
    success_has_content
    [where fetch = "replying (Inr (ex_reply True 200 ''ok'' (JObj [(''content'', JArr [])])))"
      and provider = "PROVIDERS anthropic" and apiKey = "''sk-1''" and request = ex_request
      and r = "ex_reply True 200 ''ok'' (JObj [(''content'', JArr [])])"
      and data = "JObj [(''content'', JArr [])]" and v = None]
    success_has_content
    [where fetch = "replying (Inr (ex_reply True 200 ''ok''
           (JObj [(''content'', JArr [JObj [(''text'', JStr ''   '')]])])))"
      and provider = "PROVIDERS anthropic" and apiKey = "''sk-1''" and request = ex_request
      and r = "ex_reply True 200 ''ok''
           (JObj [(''content'', JArr [JObj [(''text'', JStr ''   '')]])])"
      and data = "JObj [(''content'', JArr [JObj [(''text'', JStr ''   '')]])]"
      and v = "Some []"]
  by (simp add: ex_reply_def anthropic_content_def read_prop_def call_trim_def opt_chain_def
      trim_def is_space_def)

theorem empty_response_counterexample:
  "fst (chatCompletion (replying (Inr (ex_reply True 200 ''{}'' (JObj []))))
          (PROVIDERS anthropic) ''sk-1'' ex_request)
     = Inl \<lparr>error_name = ''Error'', message = ''Anthropic API returned no content''\<rparr>
   \<and> error_name \<lparr>error_name = ''Error'', message = ''Anthropic API returned no content''\<rparr>
     \<noteq> ''ProviderEmptyResponseError''"
  by (simp add: chatCompletion_fst anthropicChatCompletion_def replying_def ex_reply_def
      anthropic_content_def read_prop_def call_trim_def opt_chain_def Error_def)

text \<open>
  C7, as amended. A reply with a non-success status, 401 and 403 included, makes
  \<open>chatCompletion\<close> fail with a plain \<^verbatim>\<open>Error\<close> whose message is
  \<^verbatim>\<open><Provider> API error (<status>): <body>\<close>; the error is logged and rethrown as it
  is. The status is part of the message text only: an authentication failure has the
  class and the shape of every other non-success failure.
\<close>

theorem non_success_is_plain_error:
  "\<not> ok r \<longrightarrow>
     chatCompletion (replying (Inr r)) provider apiKey request =
       (Inl (Error ((case provider_id provider of
                       openai \<Rightarrow> ''OpenAI'' | anthropic \<Rightarrow> ''Anthropic'' | google \<Rightarrow> ''Google'')
                    @ '' API error ('' @ string_of_nat (status r) @ ''): '' @ errText r)),
        [LLM_REQUEST (provider_id provider) (model request)
           (case temperature request of Some t \<Rightarrow> t | None \<Rightarrow> 0.7) (messages request),
         LLM_ERROR (provider_id provider) (model request)
           (case temperature request of Some t \<Rightarrow> t | None \<Rightarrow> 0.7) (messages request)
           ((case provider_id provider of
               openai \<Rightarrow> ''OpenAI'' | anthropic \<Rightarrow> ''Anthropic'' | google \<Rightarrow> ''Google'')
            @ '' API error ('' @ string_of_nat (status r) @ ''): '' @ errText r)])"
  by (cases "provider_id provider")
     (simp_all add: chatCompletion_def Let_def openAIChatCompletion_def
        anthropicChatCompletion_def googleChatCompletion_def replying_def Error_def
        del: string_of_nat.simps)

theorem non_success_is_plain_error_witness:
  "\<not> ok (ex_reply False 401 ''Unauthorized'' JNull)
   \<and> fst (chatCompletion (replying (Inr (ex_reply False 401 ''Unauthorized'' JNull)))
          (PROVIDERS google) ''bad-key'' ex_request)
     = Inl (Error ''Google API error (401): Unauthorized'')"
  using non_success_is_plain_error
    [of "ex_reply False 401 ''Unauthorized'' JNull" "PROVIDERS google" "''bad-key''" ex_request]
  by (simp add: ex_reply_def errText_def digit_char_def)

theorem auth_error_counterexample:
  "fst (chatCompletion (replying (Inr (ex_reply False 401 ''Unauthorized'' JNull)))
          (PROVIDERS openai) ''bad-key'' ex_request)
     = Inl \<lparr>error_name = ''Error'', message = ''OpenAI API error (401): Unauthorized''\<rparr>
   \<and> fst (chatCompletion (replying (Inr (ex_reply False 500 ''Unauthorized'' JNull)))
          (PROVIDERS openai) ''bad-key'' ex_request)
     = Inl \<lparr>error_name = ''Error'', message = ''OpenAI API error (500): Unauthorized''\<rparr>"
  by (simp add: chatCompletion_fst openAIChatCompletion_def replying_def ex_reply_def
      errText_def Error_def digit_char_def)

text \<open>
  C9, as amended. Every invocation prints two console records. The first is the request
  record, which holds the provider id, the model, the temperature and the message list
  and nothing else, whatever the key and the network are. The second is the response
  preview (the first 500 characters of the returned content) or the error record (the
  request fields and the message of the error thrown). Two invocations that differ only
  in the \<open>apiKey\<close> argument, and whose requests the network answers with the same
  outcome, give the same result and print the same records: the key reaches the console
  only through what the network replies.
\<close>

theorem log_holds_key_only_from_reply:
  "snd (chatCompletion fetch provider apiKey request)
     = [LLM_REQUEST (provider_id provider) (model request)
          (case temperature request of Some t \<Rightarrow> t | None \<Rightarrow> 0.7) (messages request),
        (case fst (chatCompletion fetch provider apiKey request) of
           Inr response \<Rightarrow>
             LLM_RESPONSE (provider_id provider) (model request)
               (take 500 (ChatCompletionResponse.content response))
         | Inl err \<Rightarrow>
             LLM_ERROR (provider_id provider) (model request)
               (case temperature request of Some t \<Rightarrow> t | None \<Rightarrow> 0.7) (messages request)
               (message err))]
   \<and> (fetch1 (sent_request provider key1 request) = fetch2 (sent_request provider key2 request)
        \<longrightarrow> chatCompletion fetch1 provider key1 request
             = chatCompletion fetch2 provider key2 request)"
proof (intro conjI impI)
  show "snd (chatCompletion fetch provider apiKey request)
     = [LLM_REQUEST (provider_id provider) (model request)
          (case temperature request of Some t \<Rightarrow> t | None \<Rightarrow> 0.7) (messages request),
        (case fst (chatCompletion fetch provider apiKey request) of
           Inr response \<Rightarrow>
             LLM_RESPONSE (provider_id provider) (model request)
               (take 500 (ChatCompletionResponse.content response))
         | Inl err \<Rightarrow>
             LLM_ERROR (provider_id provider) (model request)
               (case temperature request of Some t \<Rightarrow> t | None \<Rightarrow> 0.7) (messages request)
               (message err))]"
    by (simp add: chatCompletion_def Let_def split: sum.splits)
next
  assume same: "fetch1 (sent_request provider key1 request)
      = fetch2 (sent_request provider key2 request)"
  have key: "chatCompletion (replying res) provider key1 request
      = chatCompletion (replying res) provider key2 request" for res
    by (cases "provider_id provider")
       (simp_all add: chatCompletion_def Let_def openAIChatCompletion_def
          anthropicChatCompletion_def googleChatCompletion_def replying_def
          del: string_of_nat.simps)
  have "chatCompletion fetch1 provider key1 request
      = chatCompletion (replying (fetch1 (sent_request provider key1 request)))
          provider key1 request"
    by (rule chatCompletion_fetch)
  also have "\<dots> = chatCompletion (replying (fetch2 (sent_request provider key2 request)))
          provider key2 request"
    using same key by simp
  also have "\<dots> = chatCompletion fetch2 provider key2 request"
    by (rule chatCompletion_fetch[symmetric])
  finally show "chatCompletion fetch1 provider key1 request
      = chatCompletion fetch2 provider key2 request" .
qed

theorem log_holds_key_only_from_reply_witness:
  "replying (Inr (ex_reply False 401 ''Unauthorized'' JNull))
       (sent_request (PROVIDERS openai) ''sk-1'' ex_request)
     = replying (Inr (ex_reply False 401 ''Unauthorized'' JNull))
       (sent_request (PROVIDERS openai) ''sk-2'' ex_request)
   \<and> snd (chatCompletion (replying (Inr (ex_reply False 401 ''Unauthorized'' JNull)))
          (PROVIDERS openai) ''sk-1'' ex_request)
     = [LLM_REQUEST openai ''m1'' 0.7 (messages ex_request),
        LLM_ERROR openai ''m1'' 0.7 (messages ex_request)
          ''OpenAI API error (401): Unauthorized'']
   \<and> chatCompletion (replying (Inr (ex_reply False 401 ''Unauthorized'' JNull)))
          (PROVIDERS openai) ''sk-1'' ex_request
     = chatCompletion (replying (Inr (ex_reply False 401 ''Unauthorized'' JNull)))
          (PROVIDERS openai) ''sk-2'' ex_request"
  using log_holds_key_only_from_reply
    [of "replying (Inr (ex_reply False 401 ''Unauthorized'' JNull))" "PROVIDERS openai"
      "''sk-1''" ex_request
      "replying (Inr (ex_reply False 401 ''Unauthorized'' JNull))" "''sk-1''"
      "replying (Inr (ex_reply False 401 ''Unauthorized'' JNull))" "''sk-2''"]
  by (simp add: replying_def chatCompletion_def Let_def openAIChatCompletion_def ex_reply_def
      ex_request_def errText_def digit_char_def Error_def)

theorem echoed_key_counterexample:
  "snd (chatCompletion echoing (PROVIDERS openai) ''sk-1'' ex_request)
     = [LLM_REQUEST openai ''m1'' 0.7 (messages ex_request),
        LLM_ERROR openai ''m1'' 0.7 (messages ex_request)
          ''OpenAI API error (401): Incorrect API key provided: Bearer sk-1'']
   \<and> snd (chatCompletion echoing (PROVIDERS openai) ''sk-2'' ex_request)
     = [LLM_REQUEST openai ''m1'' 0.7 (messages ex_request),
        LLM_ERROR openai ''m1'' 0.7 (messages ex_request)
          ''OpenAI API error (401): Incorrect API key provided: Bearer sk-2'']
   \<and> snd (chatCompletion echoing (PROVIDERS openai) ''sk-1'' ex_request)
     \<noteq> snd (chatCompletion echoing (PROVIDERS openai) ''sk-2'' ex_request)"
  by (simp add: chatCompletion_def Let_def openAIChatCompletion_def openAI_request_def
      echoing_def ex_request_def errText_def digit_char_def Error_def)

subsection \<open>The clarification handler\<close>

lemma provider_of_json_string [simp]:
  "provider_of_json (Some (JStr (provider_id_string p))) = Some p"
  by (cases p) simp_all

lemma generateClarifyingQuestions_Inr:
  "generateClarifyingQuestions env proposal promptText contextText labelHint providerId = Inr res
   \<Longrightarrow> \<exists>r. proposal = Inr r
          \<and> res = r\<lparr>ClarificationResult.questions := take 3 (ClarificationResult.questions r)\<rparr>"
  by (auto simp: generateClarifyingQuestions_def
      split: if_splits option.splits sum.splits json.splits)

text \<open>
  C1. Operation A never hands more than three questions to the caller. Whenever
  \<open>handleGenerateClarifyingQuestions\<close> answers with success, the model's call returned
  a proposal and the \<open>questions\<close> of the response are the first three questions of that
  proposal, in the model's order (all of them when it proposed at most three): a list of
  length 0 to 3. With a prompt that is not blank, a selected provider, a stored key for it
  and a model call that returns, the handler does answer with success. (The truncation is
  that of \<open>generateClarifyingQuestions\<close> as the spec describes it; the handler forwards
  the list as it is.)
\<close>

theorem clarifying_questions_at_most_three:
  "(success (handleGenerateClarifyingQuestions env proposal msg) \<longrightarrow>
      (\<exists>r. proposal = Inr r
         \<and> Response.questions (handleGenerateClarifyingQuestions env proposal msg)
             = Some (take 3 (ClarificationResult.questions r))
         \<and> length (take 3 (ClarificationResult.questions r)) \<le> 3))
   \<and> (promptContent msg = Some text \<and> trim text \<noteq> []
        \<and> fst (getSelectedProvider env) = Inr (Some (JStr (provider_id_string p)))
        \<and> fst (getProviderApiKey env p) = Inr (Some (JStr apiKey))
        \<and> proposal = Inr r \<longrightarrow>
        success (handleGenerateClarifyingQuestions env proposal msg)
        \<and> Response.questions (handleGenerateClarifyingQuestions env proposal msg)
            = Some (take 3 (ClarificationResult.questions r)))"
proof (intro conjI impI)
  assume s: "success (handleGenerateClarifyingQuestions env proposal msg)"
  then obtain res pid where
    "generateClarifyingQuestions env proposal (the (promptContent msg))
       (if truthy_string (labelContext msg) then the (labelContext msg) else [])
       (if truthy_string (label msg) then the (label msg) else []) pid = Inr res"
    and q: "Response.questions (handleGenerateClarifyingQuestions env proposal msg)
       = Some (ClarificationResult.questions res)"
    by (auto simp: handleGenerateClarifyingQuestions_def Let_def failure_def
        split: if_splits sum.splits)
  from generateClarifyingQuestions_Inr[OF this(1)] q
  show "\<exists>r. proposal = Inr r
         \<and> Response.questions (handleGenerateClarifyingQuestions env proposal msg)
             = Some (take 3 (ClarificationResult.questions r))
         \<and> length (take 3 (ClarificationResult.questions r)) \<le> 3"
    by auto
next
  assume a: "promptContent msg = Some text \<and> trim text \<noteq> []
        \<and> fst (getSelectedProvider env) = Inr (Some (JStr (provider_id_string p)))
        \<and> fst (getProviderApiKey env p) = Inr (Some (JStr apiKey))
        \<and> proposal = Inr r"
  then have "text \<noteq> []" by (auto simp: trim_def)
  with a show "success (handleGenerateClarifyingQuestions env proposal msg)"
    and "Response.questions (handleGenerateClarifyingQuestions env proposal msg)
            = Some (take 3 (ClarificationResult.questions r))"
    by (simp_all add: handleGenerateClarifyingQuestions_def generateClarifyingQuestions_def
        Let_def del: provider_of_json.simps)
qed

theorem clarifying_questions_at_most_three_witness:
  "success (handleGenerateClarifyingQuestions ex_credentials (Inr ex_proposal)
      \<lparr>promptContent = Some ''Write a blog post'', labelContext = None, label = None\<rparr>)
   \<and> Response.questions (handleGenerateClarifyingQuestions ex_credentials (Inr ex_proposal)
      \<lparr>promptContent = Some ''Write a blog post'', labelContext = None, label = None\<rparr>)
     = Some [''q1'', ''q2'', ''q3'']
   \<and> trim ''Write a blog post'' \<noteq> []
   \<and> fst (getSelectedProvider ex_credentials) = Inr (Some (JStr (provider_id_string openai)))
   \<and> fst (getProviderApiKey ex_credentials openai) = Inr (Some (JStr ''sk-1''))"
  using clarifying_questions_at_most_three
    [of ex_credentials "Inr ex_proposal"
        "\<lparr>promptContent = Some ''Write a blog post'', labelContext = None, label = None\<rparr>"
        "''Write a blog post''" openai "''sk-1''" ex_proposal]
  by (simp add: ex_credentials_def ex_proposal_def getSelectedProvider_def getProviderApiKey_def
      storage_get_def SELECTED_PROVIDER_def PROVIDER_API_KEYS_def trim_def is_space_def)

subsection \<open>The conversation driver\<close>

text \<open>
  C3. When the response to \<^verbatim>\<open>generateClarifyingQuestions\<close> is a success with an empty
  question list, the mount effect sends exactly one \<^verbatim>\<open>generateFinalRefinedPrompt\<close>
  message, with an empty conversation history, and shows no question; when the response
  to that message is a success with a non-empty refined text, \<^verbatim>\<open>onComplete\<close> is called
  with that text, and nothing is cancelled or reported as an error.
\<close>

theorem zero_questions_fast_path:
  "success qr \<and> Response.questions qr = Some [] \<longrightarrow>
     sent (generateQuestions (Inr qr) ro) = [[]]
     \<and> conversation (generateQuestions (Inr qr) ro) = []
     \<and> (\<forall>rr t. ro = Inr rr \<and> success rr \<and> refinedText rr = Some t \<and> t \<noteq> [] \<longrightarrow>
          completed (generateQuestions (Inr qr) ro) = Some t
          \<and> \<not> cancelled (generateQuestions (Inr qr) ro)
          \<and> ClarificationChat.error (generateQuestions (Inr qr) ro) = None
          \<and> alerts (generateQuestions (Inr qr) ro) = [])"
  by (auto simp: generateQuestions_def Let_def ClarificationChat_init_def show_error_def
      split: sum.splits)

theorem zero_questions_fast_path_witness:
  "success (questions_response [])
   \<and> Response.questions (questions_response []) = Some []
   \<and> sent (generateQuestions (Inr (questions_response [])) (Inr (refined_response ''Better'')))
     = [[]]
   \<and> completed (generateQuestions (Inr (questions_response []))
        (Inr (refined_response ''Better''))) = Some ''Better''"
  using zero_questions_fast_path
    [of "questions_response []" "Inr (refined_response ''Better'')"]
  by (simp add: questions_response_def refined_response_def)

lemma transcript_snoc:
  "length qs = length ds \<Longrightarrow>
   transcript (qs @ [q]) (ds @ [d]) = transcript qs ds @ turns q d"
  by (induction qs ds rule: list_induct2) simp_all

lemma transcript_take_Suc:
  assumes "i < length qs" "length ds = i"
  shows "transcript (take (Suc i) qs) (ds @ [d]) = transcript (take i qs) ds @ turns (qs ! i) d"
proof -
  have "take (Suc i) qs = take i qs @ [qs ! i]"
    using assms(1) by (simp add: take_Suc_conv_app_nth)
  moreover have "length (take i qs) = length ds" using assms by simp
  ultimately show ?thesis by (simp add: transcript_snoc)
qed

lemma well_formed_transcript:
  "length qs = length ds \<Longrightarrow> well_formed qs (transcript qs ds)"
proof (induction qs ds rule: list_induct2)
  case Nil
  then show ?case by simp
next
  case (Cons q qs d ds)
  then show ?case by (cases d) simp_all
qed

lemma well_formed_is_transcript:
  "well_formed qs c \<Longrightarrow> \<exists>ds. length ds = length qs \<and> c = transcript qs ds"
proof (induction qs arbitrary: c)
  case Nil
  then show ?case by simp
next
  case (Cons q qs)
  then obtain m ms where c: "c = m # ms" by (cases c) auto
  with Cons.prems have m: "m = \<lparr>role = assistant, content = q\<rparr>" by simp
  from Cons.prems c consider (a) "well_formed qs ms"
    | (b) u ms' where "ms = u # ms'" "ConversationMessage.role u = user" "well_formed qs ms'"
    by (auto split: list.splits)
  then show ?case
  proof cases
    case a
    from Cons.IH[OF a] obtain ds where "length ds = length qs" "ms = transcript qs ds" by blast
    then have "length (None # ds) = length (q # qs) \<and> c = transcript (q # qs) (None # ds)"
      using c m by simp
    then show ?thesis by blast
  next
    case b
    from Cons.IH[OF b(3)] obtain ds where "length ds = length qs" "ms' = transcript qs ds"
      by blast
    moreover have "u = \<lparr>role = user, content = ConversationMessage.content u\<rparr>"
      using b(2) by simp
    ultimately have "length (Some (ConversationMessage.content u) # ds) = length (q # qs)
        \<and> c = transcript (q # qs) (Some (ConversationMessage.content u) # ds)"
      using c m b(1) by simp
    then show ?thesis by blast
  qed
qed

lemma assistant_turns_transcript:
  "length qs = length ds \<Longrightarrow>
   filter (\<lambda>m. ConversationMessage.role m = assistant) (transcript qs ds)
     = map (\<lambda>q. \<lparr>role = assistant, content = q\<rparr>) qs"
proof (induction qs ds rule: list_induct2)
  case Nil
  then show ?case by simp
next
  case (Cons q qs d ds)
  then show ?case by (cases d) simp_all
qed

lemma assistant_turns_formed:
  assumes "formed qs c"
  shows "filter (\<lambda>m. ConversationMessage.role m = assistant) c
           = map (\<lambda>q. \<lparr>role = assistant, content = q\<rparr>) qs"
proof -
  from assms obtain ds xs where "length ds = length qs"
    "c = transcript qs ds @ map (\<lambda>a. \<lparr>role = user, content = a\<rparr>) xs"
    unfolding formed_def by blast
  moreover have "filter (\<lambda>m. ConversationMessage.role m = assistant)
      (map (\<lambda>a. \<lparr>role = user, content = a\<rparr>) xs) = []"
    by (induction xs) simp_all
  ultimately show ?thesis by (simp add: assistant_turns_transcript)
qed

lemma formed_transcript: "length ds = length qs \<Longrightarrow> formed qs (transcript qs ds)"
  unfolding formed_def by (rule exI[of _ ds], rule exI[of _ "[]"]) simp

lemma formed_snoc:
  assumes "formed qs c"
  shows "formed qs (c @ [\<lparr>role = user, content = a\<rparr>])"
proof -
  from assms obtain ds xs where "length ds = length qs"
    "c = transcript qs ds @ map (\<lambda>a. \<lparr>role = user, content = a\<rparr>) xs"
    unfolding formed_def by blast
  then have "length ds = length qs \<and> c @ [\<lparr>role = user, content = a\<rparr>]
      = transcript qs ds @ map (\<lambda>a. \<lparr>role = user, content = a\<rparr>) (xs @ [a])"
    by simp
  then show ?thesis unfolding formed_def by blast
qed

lemma started_inv: "qs \<noteq> [] \<Longrightarrow> chat_inv qs (started qs)"
  by (simp add: chat_inv_def started_def generateQuestions_def questions_response_def Let_def
      ClarificationChat_init_def)

lemma refine_done_fields [simp]:
  "sent (refine_done r st) = sent st"
  "conversation (refine_done r st) = conversation st"
  "ClarificationChat.questions (refine_done r st) = ClarificationChat.questions st"
  "currentQuestionIndex (refine_done r st) = currentQuestionIndex st"
  "isGeneratingQuestions (refine_done r st) = isGeneratingQuestions st"
  "isLoading (refine_done r st) = False"
  "cancelled (refine_done r st) = cancelled st"
  by (simp_all add: refine_done_def show_error_def split: sum.splits)

text \<open>What a handler does at a question that is not the last one, and at the last one.\<close>

lemma handleSend_next:
  assumes "trim (currentAnswer st) \<noteq> []" "\<not> isLoading st"
    "Suc (currentQuestionIndex st) < length (ClarificationChat.questions st)"
  shows "handleSend r st =
     st\<lparr>answers := answers st @ [trim (currentAnswer st)],
        conversation := conversation st @
          [\<lparr>role = user, content = trim (currentAnswer st)\<rparr>,
           \<lparr>role = assistant,
             content = ClarificationChat.questions st ! Suc (currentQuestionIndex st)\<rparr>],
        currentAnswer := [], isLoading := False,
        currentQuestionIndex := Suc (currentQuestionIndex st)\<rparr>"
  using assms by (simp add: handleSend_def Let_def)

lemma handleSend_last:
  assumes "trim (currentAnswer st) \<noteq> []" "\<not> isLoading st"
    "\<not> Suc (currentQuestionIndex st) < length (ClarificationChat.questions st)"
  shows "handleSend r st =
     refine_done r
       (st\<lparr>answers := answers st @ [trim (currentAnswer st)],
           conversation := conversation st @
             [\<lparr>role = user, content = trim (currentAnswer st)\<rparr>],
           currentAnswer := [], isLoading := True,
           sent := sent st @
             [conversation st @ [\<lparr>role = user, content = trim (currentAnswer st)\<rparr>]]\<rparr>)"
proof -
  from assms(3) have "\<not> int (currentQuestionIndex st)
      < int (length (ClarificationChat.questions st)) - 1"
    by linarith
  with assms(1,2) show ?thesis by (simp add: handleSend_def Let_def)
qed

lemma handleAnswerLater_next:
  assumes "\<not> isLoading st" "\<not> isGeneratingQuestions st"
    "Suc (currentQuestionIndex st) < length (ClarificationChat.questions st)"
  shows "handleAnswerLater r st =
     st\<lparr>conversation := conversation st @
          [\<lparr>role = assistant,
             content = ClarificationChat.questions st ! Suc (currentQuestionIndex st)\<rparr>],
        isLoading := False,
        currentQuestionIndex := Suc (currentQuestionIndex st)\<rparr>"
  using assms by (simp add: handleAnswerLater_def Let_def)

lemma handleAnswerLater_last:
  assumes "\<not> isLoading st" "\<not> isGeneratingQuestions st"
    "\<not> Suc (currentQuestionIndex st) < length (ClarificationChat.questions st)"
  shows "handleAnswerLater r st =
     refine_done r (st\<lparr>isLoading := True, sent := sent st @ [conversation st]\<rparr>)"
proof -
  from assms(3) have "\<not> int (currentQuestionIndex st)
      < int (length (ClarificationChat.questions st)) - 1"
    by linarith
  with assms(1,2) show ?thesis by (simp add: handleAnswerLater_def Let_def)
qed

lemma chat_inv_handleSend:
  assumes inv: "chat_inv qs st"
  shows "chat_inv qs (handleSend r st)"
proof (cases "trim (currentAnswer st) = [] \<or> isLoading st")
  case True
  with inv show ?thesis by (simp add: handleSend_def)
next
  case False
  then have a: "trim (currentAnswer st) \<noteq> []" and l: "\<not> isLoading st" by simp_all
  define i where "i = currentQuestionIndex st"
  from inv have q: "ClarificationChat.questions st = qs" and g: "\<not> isGeneratingQuestions st"
    and i: "i < length qs"
    unfolding chat_inv_def i_def by simp_all
  show ?thesis
  proof (cases "sent st = []")
    case True
    with inv obtain ds where ds: "length ds = i"
      "conversation st = transcript (take i qs) ds @ [\<lparr>role = assistant, content = qs ! i\<rparr>]"
      unfolding chat_inv_def i_def by auto
    have conv: "conversation st @ [\<lparr>role = user, content = trim (currentAnswer st)\<rparr>]
        = transcript (take (Suc i) qs) (ds @ [Some (trim (currentAnswer st))])"
      using ds i by (simp add: transcript_take_Suc)
    show ?thesis
    proof (cases "Suc i < length qs")
      case True
      have "length (ds @ [Some (trim (currentAnswer st))]) = Suc i" using ds by simp
      moreover have "conversation st @
          [\<lparr>role = user, content = trim (currentAnswer st)\<rparr>,
           \<lparr>role = assistant, content = qs ! Suc i\<rparr>]
        = transcript (take (Suc i) qs) (ds @ [Some (trim (currentAnswer st))])
          @ [\<lparr>role = assistant, content = qs ! Suc i\<rparr>]"
        using conv by simp
      ultimately have "\<exists>ds'. length ds' = Suc i \<and> conversation st @
          [\<lparr>role = user, content = trim (currentAnswer st)\<rparr>,
           \<lparr>role = assistant, content = qs ! Suc i\<rparr>]
        = transcript (take (Suc i) qs) ds' @ [\<lparr>role = assistant, content = qs ! Suc i\<rparr>]"
        by blast
      with True q g \<open>sent st = []\<close> show ?thesis
        unfolding chat_inv_def
        by (simp add: handleSend_next[OF a l] i_def[symmetric])
    next
      case False
      with i have last: "Suc i = length qs" by simp
      then have "take (Suc i) qs = qs" by simp
      with conv have c: "conversation st @ [\<lparr>role = user, content = trim (currentAnswer st)\<rparr>]
          = transcript qs (ds @ [Some (trim (currentAnswer st))])"
        by simp
      have len: "length (ds @ [Some (trim (currentAnswer st))]) = length qs"
        using ds last by simp
      from False q have nl: "\<not> Suc (currentQuestionIndex st)
          < length (ClarificationChat.questions st)"
        by (simp add: i_def)
      show ?thesis
        unfolding chat_inv_def
        using q g i last len \<open>sent st = []\<close>
        by (simp add: handleSend_last[OF a l nl] c i_def[symmetric]
            well_formed_transcript formed_transcript)
    qed
  next
    case False
    with inv have last: "Suc i = length qs" and c: "conversation st = last (sent st)"
      and w: "well_formed qs (hd (sent st))" and f: "list_all (formed qs) (sent st)"
      unfolding chat_inv_def i_def by simp_all
    from last q have nl: "\<not> Suc (currentQuestionIndex st)
        < length (ClarificationChat.questions st)"
      by (simp add: i_def)
    from f False have "formed qs (last (sent st))" by (simp add: list_all_iff)
    then have "formed qs (last (sent st) @ [\<lparr>role = user, content = trim (currentAnswer st)\<rparr>])"
      by (rule formed_snoc)
    with False q g i last c w f show ?thesis
      unfolding chat_inv_def
      by (simp add: handleSend_last[OF a l nl] i_def[symmetric])
  qed
qed

lemma chat_inv_handleAnswerLater:
  assumes inv: "chat_inv qs st"
  shows "chat_inv qs (handleAnswerLater r st)"
proof -
  define i where "i = currentQuestionIndex st"
  from inv have q: "ClarificationChat.questions st = qs" and g: "\<not> isGeneratingQuestions st"
    and l: "\<not> isLoading st" and i: "i < length qs"
    unfolding chat_inv_def i_def by simp_all
  show ?thesis
  proof (cases "sent st = []")
    case True
    with inv obtain ds where ds: "length ds = i"
      "conversation st = transcript (take i qs) ds @ [\<lparr>role = assistant, content = qs ! i\<rparr>]"
      unfolding chat_inv_def i_def by auto
    have conv: "conversation st = transcript (take (Suc i) qs) (ds @ [None])"
      using ds i by (simp add: transcript_take_Suc)
    show ?thesis
    proof (cases "Suc i < length qs")
      case True
      have "length (ds @ [None]) = Suc i" using ds by simp
      moreover have "conversation st @ [\<lparr>role = assistant, content = qs ! Suc i\<rparr>]
        = transcript (take (Suc i) qs) (ds @ [None])
          @ [\<lparr>role = assistant, content = qs ! Suc i\<rparr>]"
        using conv by simp
      ultimately have "\<exists>ds'. length ds' = Suc i
        \<and> conversation st @ [\<lparr>role = assistant, content = qs ! Suc i\<rparr>]
        = transcript (take (Suc i) qs) ds' @ [\<lparr>role = assistant, content = qs ! Suc i\<rparr>]"
        by blast
      with True q g \<open>sent st = []\<close> show ?thesis
        unfolding chat_inv_def
        by (simp add: handleAnswerLater_next[OF l g] i_def[symmetric])
    next
      case False
      with i have last: "Suc i = length qs" by simp
      then have "take (Suc i) qs = qs" by simp
      with conv have c: "conversation st = transcript qs (ds @ [None])" by simp
      have len: "length (ds @ [None]) = length qs" using ds last by simp
      from False q have nl: "\<not> Suc (currentQuestionIndex st)
          < length (ClarificationChat.questions st)"
        by (simp add: i_def)
      show ?thesis
        unfolding chat_inv_def
        using q g i last len \<open>sent st = []\<close>
        by (simp add: handleAnswerLater_last[OF l g nl] c i_def[symmetric]
            well_formed_transcript formed_transcript)
    qed
  next
    case False
    with inv have last: "Suc i = length qs" and c: "conversation st = last (sent st)"
      and w: "well_formed qs (hd (sent st))" and f: "list_all (formed qs) (sent st)"
      unfolding chat_inv_def i_def by simp_all
    from last q have nl: "\<not> Suc (currentQuestionIndex st)
        < length (ClarificationChat.questions st)"
      by (simp add: i_def)
    from f False have "formed qs (last (sent st))" by (simp add: list_all_iff)
    with False q g i last c w f show ?thesis
      unfolding chat_inv_def
      by (simp add: handleAnswerLater_last[OF l g nl] i_def[symmetric])
  qed
qed

lemma chat_inv_step: "chat_inv qs st \<Longrightarrow> chat_inv qs (chat_step st ev)"
proof (cases ev)
  case (typeAnswer t)
  assume "chat_inv qs st"
  then show ?thesis using typeAnswer by (simp add: chat_inv_def)
next
  case (pressSend r)
  assume "chat_inv qs st"
  then show ?thesis using pressSend by (simp add: chat_inv_handleSend)
next
  case (pressAnswerLater r)
  assume "chat_inv qs st"
  then show ?thesis using pressAnswerLater by (simp add: chat_inv_handleAnswerLater)
next
  case pressBack
  assume "chat_inv qs st"
  then show ?thesis using pressBack by (simp add: chat_inv_def)
qed

lemma chat_inv_run: "chat_inv qs st \<Longrightarrow> chat_inv qs (chat_run st evs)"
  unfolding chat_run_def
  by (induction evs arbitrary: st) (simp_all add: chat_inv_step del: chat_step.simps)

lemma chat_run_append: "chat_run st (xs @ ys) = chat_run (chat_run st xs) ys"
  by (simp add: chat_run_def)

text \<open>A further answer after the first call.\<close>

lemma retry_appends:
  assumes "chat_inv qs st" "sent st \<noteq> []" "completed st = None" "\<not> cancelled st"
    "trim a \<noteq> []"
  shows "sent (chat_run st [typeAnswer a, pressSend r])
           = sent st @ [last (sent st) @ [\<lparr>role = user, content = trim a\<rparr>]]"
proof -
  from assms(1,2) have q: "ClarificationChat.questions st = qs"
    and g: "\<not> isGeneratingQuestions st" and l: "\<not> isLoading st"
    and last: "Suc (currentQuestionIndex st) = length qs"
    and c: "conversation st = last (sent st)"
    unfolding chat_inv_def by simp_all
  let ?t = "st\<lparr>currentAnswer := a\<rparr>"
  have nl: "\<not> Suc (currentQuestionIndex ?t) < length (ClarificationChat.questions ?t)"
    using last q by simp
  have "chat_run st [typeAnswer a, pressSend r] = handleSend r ?t"
    using assms(3,4) g l by (simp add: chat_run_def)
  also have "sent \<dots> = sent st @ [last (sent st) @ [\<lparr>role = user, content = trim a\<rparr>]]"
    using handleSend_last[of ?t r] assms(5) l nl c by simp
  finally show ?thesis .
qed

text \<open>The run that takes one decision per question.\<close>

lemma at_send_next:
  "awaiting qs i conv st \<Longrightarrow> trim a \<noteq> [] \<Longrightarrow> Suc i < length qs \<Longrightarrow>
   awaiting qs (Suc i)
     (conv @ [\<lparr>role = user, content = trim a\<rparr>, \<lparr>role = assistant, content = qs ! Suc i\<rparr>])
     (chat_run st (decide (Some a, r)))"
  by (auto simp: awaiting_def chat_run_def handleSend_def Let_def)

lemma at_send_last:
  "awaiting qs i conv st \<Longrightarrow> trim a \<noteq> [] \<Longrightarrow> Suc i = length qs \<Longrightarrow>
   sent (chat_run st (decide (Some a, r))) = [conv @ [\<lparr>role = user, content = trim a\<rparr>]]"
  by (auto simp: awaiting_def chat_run_def handleSend_def Let_def)

lemma at_later_next:
  "awaiting qs i (c0 @ [\<lparr>role = assistant, content = q\<rparr>]) st \<Longrightarrow> Suc i < length qs \<Longrightarrow>
   awaiting qs (Suc i)
     (c0 @ [\<lparr>role = assistant, content = q\<rparr>, \<lparr>role = assistant, content = qs ! Suc i\<rparr>])
     (chat_run st (decide (None, r)))"
  by (auto simp: awaiting_def chat_run_def handleAnswerLater_def Let_def)

lemma at_later_last:
  "awaiting qs i (c0 @ [\<lparr>role = assistant, content = q\<rparr>]) st \<Longrightarrow> Suc i = length qs \<Longrightarrow>
   sent (chat_run st (decide (None, r))) = [c0 @ [\<lparr>role = assistant, content = q\<rparr>]]"
  by (auto simp: awaiting_def chat_run_def handleAnswerLater_def Let_def)

lemma run_decisions:
  "awaiting qs i (transcript (take i qs) ds0 @ [\<lparr>role = assistant, content = qs ! i\<rparr>]) st \<Longrightarrow>
   length ds0 = i \<Longrightarrow> i < length qs \<Longrightarrow> length ds = length qs - i \<Longrightarrow>
   list_all nonblank ds \<Longrightarrow>
   sent (chat_run st (concat (map decide ds))) = [transcript qs (ds0 @ map answered ds)]"
proof (induction ds arbitrary: st i ds0)
  case Nil
  then show ?case by simp
next
  case (Cons d ds)
  obtain c r where d: "d = (c, r)" by (cases d)
  have tk: "transcript (take (Suc i) qs) (ds0 @ [map_option trim c])
      = transcript (take i qs) ds0 @ turns (qs ! i) (map_option trim c)"
    using Cons.prems(2,3) by (simp add: transcript_take_Suc)
  show ?case
  proof (cases "Suc i < length qs")
    case True
    have "awaiting qs (Suc i)
        (transcript (take (Suc i) qs) (ds0 @ [map_option trim c])
           @ [\<lparr>role = assistant, content = qs ! Suc i\<rparr>])
        (chat_run st (decide d))"
    proof (cases c)
      case None
      with at_later_next[OF Cons.prems(1) True, of r] tk d show ?thesis by simp
    next
      case (Some a)
      with Cons.prems(5) d have "trim a \<noteq> []" by simp
      from at_send_next[OF Cons.prems(1) this True, of r] tk d Some show ?thesis by simp
    qed
    from Cons.IH[OF this] Cons.prems True d
    show ?thesis by (simp add: chat_run_append)
  next
    case False
    with Cons.prems(3) have last: "Suc i = length qs" by simp
    with Cons.prems(4) have "length ds = 0" by (simp del: length_0_conv)
    then have "ds = []" by simp
    from last have full: "take (Suc i) qs = qs" by simp
    have "sent (chat_run st (decide d)) = [transcript qs (ds0 @ [map_option trim c])]"
    proof (cases c)
      case None
      with at_later_last[OF Cons.prems(1) last, of r] tk d full show ?thesis by simp
    next
      case (Some a)
      with Cons.prems(5) d have "trim a \<noteq> []" by simp
      from at_send_last[OF Cons.prems(1) this last, of r] tk d Some full show ?thesis by simp
    qed
    with \<open>ds = []\<close> d show ?thesis by simp
  qed
qed

lemma started_at:
  "qs \<noteq> [] \<Longrightarrow>
   awaiting qs 0 (transcript (take 0 qs) [] @ [\<lparr>role = assistant, content = qs ! 0\<rparr>])
     (started qs)"
  by (simp add: awaiting_def started_def generateQuestions_def questions_response_def Let_def
      ClarificationChat_init_def)

lemma decide_all_later:
  "concat (map decide (replicate n (None, r))) = replicate n (pressAnswerLater r)"
  by (induction n) simp_all

lemma transcript_all_later:
  "transcript qs (replicate (length qs) None) = map (\<lambda>q. \<lparr>role = assistant, content = q\<rparr>) qs"
  by (induction qs) simp_all

text \<open>
  C2, as amended. Over a non-empty question list \<open>qs\<close>, whatever the user does, every
  transcript passed to Operation B holds exactly one assistant turn per question, in
  question order, and is the transcript of one decision per question (for each question
  its assistant turn, followed by at most one user turn) with, possibly, further user
  turns at its end; the first transcript passed has no such further turns: it is well
  formed. When the user takes one decision per question (submits a non-blank answer, or
  defers), Operation B is invoked exactly once, with the transcript that holds for each
  question its assistant turn, followed by the trimmed answer when one was submitted and
  by nothing when the question was deferred. Deferring every question invokes Operation
  B with the assistant turns alone. When Operation B has been invoked and the chat is
  still open (the call failed), the next answer submitted invokes Operation B with the
  transcript sent last and that answer appended as one more user turn.
\<close>

theorem transcripts_sent:
  "qs \<noteq> [] \<longrightarrow>
     (\<forall>c \<in> set (sent (chat_run (started qs) evs)).
        filter (\<lambda>m. ConversationMessage.role m = assistant) c
          = map (\<lambda>q. \<lparr>role = assistant, content = q\<rparr>) qs
        \<and> (\<exists>ds xs. length ds = length qs
              \<and> c = transcript qs ds @ map (\<lambda>a. \<lparr>role = user, content = a\<rparr>) xs))
     \<and> (sent (chat_run (started qs) evs) \<noteq> [] \<longrightarrow>
          well_formed qs (hd (sent (chat_run (started qs) evs))))
     \<and> (length ds = length qs \<and> list_all nonblank ds \<longrightarrow>
          sent (chat_run (started qs) (concat (map decide ds)))
            = [transcript qs (map answered ds)])
     \<and> sent (chat_run (started qs) (replicate (length qs) (pressAnswerLater r)))
         = [map (\<lambda>q. \<lparr>role = assistant, content = q\<rparr>) qs]
     \<and> (sent (chat_run (started qs) evs) \<noteq> []
          \<and> completed (chat_run (started qs) evs) = None
          \<and> \<not> cancelled (chat_run (started qs) evs) \<and> trim a \<noteq> [] \<longrightarrow>
          sent (chat_run (started qs) (evs @ [typeAnswer a, pressSend r']))
            = sent (chat_run (started qs) evs)
              @ [last (sent (chat_run (started qs) evs)) @ [\<lparr>role = user, content = trim a\<rparr>]])"
proof (intro impI conjI ballI)
  assume qs: "qs \<noteq> []"
  from chat_inv_run[OF started_inv[OF qs], of evs]
  have inv: "chat_inv qs (chat_run (started qs) evs)" .
  show "filter (\<lambda>m. ConversationMessage.role m = assistant) c
          = map (\<lambda>q. \<lparr>role = assistant, content = q\<rparr>) qs"
    if "c \<in> set (sent (chat_run (started qs) evs))" for c
  proof -
    from that inv have "formed qs c" by (auto simp: chat_inv_def list_all_iff split: if_splits)
    then show ?thesis by (rule assistant_turns_formed)
  qed
  show "\<exists>ds xs. length ds = length qs
              \<and> c = transcript qs ds @ map (\<lambda>a. \<lparr>role = user, content = a\<rparr>) xs"
    if "c \<in> set (sent (chat_run (started qs) evs))" for c
  proof -
    from that inv have "formed qs c" by (auto simp: chat_inv_def list_all_iff split: if_splits)
    then show ?thesis by (simp add: formed_def)
  qed
  show "well_formed qs (hd (sent (chat_run (started qs) evs)))"
    if "sent (chat_run (started qs) evs) \<noteq> []"
    using that inv by (simp add: chat_inv_def)
  show "sent (chat_run (started qs) (concat (map decide ds))) = [transcript qs (map answered ds)]"
    if "length ds = length qs \<and> list_all nonblank ds"
    using run_decisions[OF started_at[OF qs], of ds] that qs by simp
  have "list_all nonblank (replicate (length qs) (None, r))"
    by (simp add: list_all_iff)
  with run_decisions[OF started_at[OF qs], of "replicate (length qs) (None, r)"] qs
  show "sent (chat_run (started qs) (replicate (length qs) (pressAnswerLater r)))
         = [map (\<lambda>q. \<lparr>role = assistant, content = q\<rparr>) qs]"
    by (simp add: decide_all_later transcript_all_later)
  show "sent (chat_run (started qs) (evs @ [typeAnswer a, pressSend r']))
            = sent (chat_run (started qs) evs)
              @ [last (sent (chat_run (started qs) evs)) @ [\<lparr>role = user, content = trim a\<rparr>]]"
    if "sent (chat_run (started qs) evs) \<noteq> []
          \<and> completed (chat_run (started qs) evs) = None
          \<and> \<not> cancelled (chat_run (started qs) evs) \<and> trim a \<noteq> []"
    using retry_appends[OF inv, of a r'] that by (simp add: chat_run_append)
qed

theorem transcripts_sent_witness:
  "[''Who reads it?'', ''Which tone?''] \<noteq> []
   \<and> length [(Some '' developers '', Inl (Error ''unused'')),
              (None, Inl (Error ''Message timeout''))] = length [''Who reads it?'', ''Which tone?'']
   \<and> list_all nonblank [(Some '' developers '', Inl (Error ''unused'')),
              (None, Inl (Error ''Message timeout''))]
   \<and> sent (chat_run (started [''Who reads it?'', ''Which tone?''])
         (concat (map decide [(Some '' developers '', Inl (Error ''unused'')),
              (None, Inl (Error ''Message timeout''))])))
     = [[\<lparr>role = assistant, content = ''Who reads it?''\<rparr>,
         \<lparr>role = user, content = ''developers''\<rparr>,
         \<lparr>role = assistant, content = ''Which tone?''\<rparr>]]
   \<and> completed (chat_run (started [''Who reads it?'', ''Which tone?''])
         (concat (map decide [(Some '' developers '', Inl (Error ''unused'')),
              (None, Inl (Error ''Message timeout''))]))) = None
   \<and> \<not> cancelled (chat_run (started [''Who reads it?'', ''Which tone?''])
         (concat (map decide [(Some '' developers '', Inl (Error ''unused'')),
              (None, Inl (Error ''Message timeout''))])))
   \<and> trim ''casual'' \<noteq> []
   \<and> sent (chat_run (started [''Who reads it?'', ''Which tone?''])
         (concat (map decide [(Some '' developers '', Inl (Error ''unused'')),
              (None, Inl (Error ''Message timeout''))])
          @ [typeAnswer ''casual'', pressSend (Inr (refined_response ''Better''))]))
     = [[\<lparr>role = assistant, content = ''Who reads it?''\<rparr>,
         \<lparr>role = user, content = ''developers''\<rparr>,
         \<lparr>role = assistant, content = ''Which tone?''\<rparr>],
        [\<lparr>role = assistant, content = ''Who reads it?''\<rparr>,
         \<lparr>role = user, content = ''developers''\<rparr>,
         \<lparr>role = assistant, content = ''Which tone?''\<rparr>,
         \<lparr>role = user, content = ''casual''\<rparr>]]
   \<and> well_formed [''Who reads it?'', ''Which tone?'']
        [\<lparr>role = assistant, content = ''Who reads it?''\<rparr>,
         \<lparr>role = user, content = ''developers''\<rparr>,
         \<lparr>role = assistant, content = ''Which tone?''\<rparr>]
   \<and> filter (\<lambda>m. ConversationMessage.role m = assistant)
        [\<lparr>role = assistant, content = ''Who reads it?''\<rparr>,
         \<lparr>role = user, content = ''developers''\<rparr>,
         \<lparr>role = assistant, content = ''Which tone?''\<rparr>,
         \<lparr>role = user, content = ''casual''\<rparr>]
     = [\<lparr>role = assistant, content = ''Who reads it?''\<rparr>,
        \<lparr>role = assistant, content = ''Which tone?''\<rparr>]"
  using transcripts_sent
    [of "[''Who reads it?'', ''Which tone?'']"
        "concat (map decide [(Some '' developers '', Inl (Error ''unused'')),
              (None, Inl (Error ''Message timeout''))])"
        "[(Some '' developers '', Inl (Error ''unused'')),
              (None, Inl (Error ''Message timeout''))]"
        "Inl (Error ''Message timeout'')" "''casual''" "Inr (refined_response ''Better'')"]
  by (simp add: chat_run_def started_def generateQuestions_def questions_response_def
      ClarificationChat_init_def handleSend_def handleAnswerLater_def refine_done_def
      show_error_def Let_def trim_def is_space_def Error_def)

theorem retry_after_failure_counterexample:
  "sent (chat_run (started [''q''])
          [typeAnswer ''a'', pressSend (Inl (Error ''Message timeout'')),
           typeAnswer ''b'', pressSend (Inr (refined_response ''better''))])
     = [[\<lparr>role = assistant, content = ''q''\<rparr>, \<lparr>role = user, content = ''a''\<rparr>],
        [\<lparr>role = assistant, content = ''q''\<rparr>, \<lparr>role = user, content = ''a''\<rparr>,
         \<lparr>role = user, content = ''b''\<rparr>]]
   \<and> \<not> well_formed [''q'']
        [\<lparr>role = assistant, content = ''q''\<rparr>, \<lparr>role = user, content = ''a''\<rparr>,
         \<lparr>role = user, content = ''b''\<rparr>]
   \<and> completed (chat_run (started [''q''])
          [typeAnswer ''a'', pressSend (Inl (Error ''Message timeout'')),
           typeAnswer ''b'', pressSend (Inr (refined_response ''better''))])
     = Some ''better''"
  by (simp add: chat_run_def started_def generateQuestions_def questions_response_def
      refined_response_def ClarificationChat_init_def handleSend_def refine_done_def
      show_error_def Let_def trim_def is_space_def Error_def)

end
